theory Spec2Isabelle
  imports Main
begin

text \<open>
  The next-episode stage of Chubflix: the class \<open>Stage\<close> keeps the index of the current
  episode among the greetings of a character, derives a title for every greeting, and
  answers the lifecycle calls of its host (\<open>load\<close>, \<open>beforePrompt\<close>,
  \<open>afterResponse\<close>, \<open>setState\<close>) and the two buttons of its widget. The methods are
  declared \<open>async\<close> but never wait, so each call is a function from the stage to
  the stage and the value returned; the constructor returns the stage or the exception
  it raises. Rendering is left out.
\<close>

section \<open>JavaScript values used by the stage\<close>

text \<open>
  A JavaScript string is a sequence of UTF-16 code units. The model covers the strings
  whose code units are below 256: a \<^typ>\<open>char\<close> stands for the code unit with the same
  number, so \<open>length\<close> is the \<open>.length\<close> of the source and \<open>CHR 0xA0\<close> is
  the no-break space. Numbers are the integers; \<open>NaN\<close>, \<open>undefined\<close> and \<open>null\<close>
  are the \<open>None\<close> of an option type where the source can receive them.
\<close>

text \<open>White space of \<open>String.prototype.trim\<close> and of the class \<open>\s\<close> (the same set).\<close>

definition is_white_space :: "char \<Rightarrow> bool" where
  "is_white_space c \<longleftrightarrow>
     c = CHR 0x09 \<or> c = CHR 0x0A \<or> c = CHR 0x0B \<or> c = CHR 0x0C \<or> c = CHR 0x0D \<or>
     c = CHR 0x20 \<or> c = CHR 0xA0"

definition trim :: "string \<Rightarrow> string" where
  "trim s = rev (dropWhile is_white_space (rev (dropWhile is_white_space s)))"

text \<open>Decimal rendering of a number inside a template literal.\<close>

definition digit_char :: "nat \<Rightarrow> char" where
  "digit_char d = ''0123456789'' ! d"

fun show_nat :: "nat \<Rightarrow> string" where
  "show_nat n = (if n < 10 then [digit_char n] else show_nat (n div 10) @ [digit_char (n mod 10)])"

declare show_nat.simps [simp del]

definition show_int :: "int \<Rightarrow> string" where
  "show_int i = (if i < 0 then CHR ''-'' # show_nat (nat (- i)) else show_nat (nat i))"

text \<open>
  The operator \<open>||\<close>: the left operand unless it is falsy (\<open>undefined\<close>, \<open>null\<close>, the
  empty string, \<open>0\<close>, \<open>NaN\<close>).
\<close>

fun or_str :: "string option \<Rightarrow> string \<Rightarrow> string" where
  "or_str None d = d"
| "or_str (Some s) d = (if s = [] then d else s)"

fun or_num :: "int option \<Rightarrow> int \<Rightarrow> int" where
  "or_num None d = d"
| "or_num (Some i) d = (if i = 0 then d else i)"

text \<open>Reading \<open>xs[i]\<close>: \<open>undefined\<close> outside the array.\<close>

definition js_index :: "'a list \<Rightarrow> int \<Rightarrow> 'a option" where
  "js_index xs i = (if 0 \<le> i \<and> i < int (length xs) then Some (xs ! nat i) else None)"

text \<open>A property that should hold an array: missing, present but no array, or an array.\<close>

datatype 'a js_array = Absent | NonArray | Arr "'a list"

text \<open>
  A property that should hold a string: a string, or a value that is no string and is
  falsy (\<open>undefined\<close>, \<open>null\<close>, \<open>false\<close>, \<open>0\<close>, \<open>NaN\<close>) or truthy (another
  number, \<open>true\<close>, an object).
\<close>

datatype js_text = Str string | Falsy | Truthy

fun is_string :: "js_text \<Rightarrow> bool" where
  "is_string (Str _) = True"
| "is_string _ = False"

text \<open>The test \<open>if (value)\<close>: the empty string is falsy.\<close>

fun truthy :: "js_text \<Rightarrow> bool" where
  "truthy (Str s) = (s \<noteq> [])"
| "truthy Falsy = False"
| "truthy Truthy = True"

text \<open>The one exception the stage can raise.\<close>

datatype error = TypeError

section \<open>The regular expressions of the title extractor\<close>

text \<open>
  The four patterns are anchored at the start and are sequences of single characters,
  quantified character classes (one of them captured) and the group \<open>(?:\n|$)\<close>.
  \<open>rx_run\<close> is the backtracking matcher on such sequences: a greedy quantifier tries
  the longest repetition first, a lazy one the shortest, and the first alternative whose
  continuation succeeds wins. The result is the text of the capture group.
\<close>

datatype quant = Greedy | Lazy

datatype rx_item =
    One "char \<Rightarrow> bool"
  | Rep "char \<Rightarrow> bool" nat quant bool
  | NlOrEnd

fun first_some :: "'a option list \<Rightarrow> 'a option" where
  "first_some [] = None"
| "first_some (Some x # _) = Some x"
| "first_some (None # xs) = first_some xs"

fun rx_run :: "rx_item list \<Rightarrow> string \<Rightarrow> string \<Rightarrow> string option" where
  "rx_run [] s cap = Some cap"
| "rx_run (One P # items) s cap =
     (case s of [] \<Rightarrow> None | c # r \<Rightarrow> if P c then rx_run items r cap else None)"
| "rx_run (Rep P mn q capt # items) s cap =
     (let mx = length (takeWhile P s);
          ks = (case q of Greedy \<Rightarrow> rev [mn..<Suc mx] | Lazy \<Rightarrow> [mn..<Suc mx])
      in first_some (map (\<lambda>k. rx_run items (drop k s) (if capt then take k s else cap)) ks))"
| "rx_run (NlOrEnd # items) s cap =
     (case s of [] \<Rightarrow> rx_run items [] cap
      | c # r \<Rightarrow> if c = CHR 0x0A then rx_run items r cap else None)"

definition lit :: "char \<Rightarrow> char \<Rightarrow> bool" where
  "lit a c \<longleftrightarrow> c = a"

text \<open>A letter under the flag \<open>i\<close>: either case of it.\<close>

definition lit_i :: "char \<Rightarrow> char \<Rightarrow> char \<Rightarrow> bool" where
  "lit_i up lo c \<longleftrightarrow> c = up \<or> c = lo"

definition not_chr :: "char \<Rightarrow> char \<Rightarrow> bool" where
  "not_chr a c \<longleftrightarrow> c \<noteq> a"

text \<open>The class \<open>.\<close>: anything but a line terminator.\<close>

definition dot :: "char \<Rightarrow> bool" where
  "dot c \<longleftrightarrow> c \<noteq> CHR 0x0A \<and> c \<noteq> CHR 0x0D"

definition digit :: "char \<Rightarrow> bool" where
  "digit c \<longleftrightarrow> 48 \<le> (of_char c :: nat) \<and> (of_char c :: nat) \<le> 57"

text \<open>\<^verbatim>\<open>/^\*\*([^*]+)\*\*/\<close>\<close>

definition p_bold :: "rx_item list" where
  "p_bold = [One (lit CHR ''*''), One (lit CHR ''*''), Rep (not_chr CHR ''*'') 1 Greedy True,
             One (lit CHR ''*''), One (lit CHR ''*'')]"

text \<open>\<^verbatim>\<open>/^#\s+(.+?)(?:\n|$)/\<close>\<close>

definition p_heading :: "rx_item list" where
  "p_heading = [One (lit CHR ''#''), Rep is_white_space 1 Greedy False, Rep dot 1 Lazy True, NlOrEnd]"

text \<open>\<^verbatim>\<open>/^"([^"]+)"/\<close>\<close>

definition p_quoted :: "rx_item list" where
  "p_quoted = [One (lit (CHR 0x22)), Rep (not_chr (CHR 0x22)) 1 Greedy True, One (lit (CHR 0x22))]"

text \<open>\<^verbatim>\<open>/^Episode\s+\d+:\s*(.+?)(?:\n|$)/i\<close>\<close>

definition p_episode :: "rx_item list" where
  "p_episode =
     [One (lit_i CHR ''E'' CHR ''e''), One (lit_i CHR ''P'' CHR ''p''),
      One (lit_i CHR ''I'' CHR ''i''), One (lit_i CHR ''S'' CHR ''s''),
      One (lit_i CHR ''O'' CHR ''o''), One (lit_i CHR ''D'' CHR ''d''),
      One (lit_i CHR ''E'' CHR ''e''),
      Rep is_white_space 1 Greedy False, Rep digit 1 Greedy False, One (lit CHR '':''),
      Rep is_white_space 0 Greedy False, Rep dot 1 Lazy True, NlOrEnd]"

definition patterns :: "rx_item list list" where
  "patterns = [p_bold, p_heading, p_quoted, p_episode]"

text \<open>The loop over the patterns: the capture of the first one that matches.\<close>

fun first_match :: "rx_item list list \<Rightarrow> string \<Rightarrow> string option" where
  "first_match [] s = None"
| "first_match (p # ps) s =
     (case rx_run p s [] of Some cap \<Rightarrow> Some cap | None \<Rightarrow> first_match ps s)"

definition is_marker :: "char \<Rightarrow> bool" where
  "is_marker c \<longleftrightarrow> c = CHR ''*'' \<or> c = CHR ''#'' \<or> c = CHR 0x22"

definition first_line :: "string \<Rightarrow> string" where
  "first_line s = takeWhile (\<lambda>c. c \<noteq> CHR 0x0A) s"

definition extractTitleFromGreeting :: "string \<Rightarrow> string option" where
  "extractTitleFromGreeting greeting =
     (case first_match patterns (trim greeting) of
        Some cap \<Rightarrow> Some (trim cap)
      | None \<Rightarrow>
          (let firstLine = first_line (trim greeting)
           in if firstLine \<noteq> [] \<and> length firstLine \<le> 50
              then Some (trim (filter (\<lambda>c. \<not> is_marker c) firstLine))
              else None))"

section \<open>The data of the stage\<close>

type_synonym Message = string

text \<open>
  A character as the host may send it: the greetings can hold values that are no
  strings. A name that is a truthy value and no string raises nothing and is shown as it
  is; the model keeps to names that are strings or missing.
\<close>

record Character =
  name :: "string option"
  first_mes :: js_text
  alternate_greetings :: "js_text js_array"

datatype theme = Dark | Light | Chubflix

record ConfigType =
  showEpisodeNumber :: bool
  showProgress :: bool
  buttonText :: string
  injectContext :: bool
  theme :: theme

text \<open>The configuration object of the host: any of the five options may be missing.\<close>

record ConfigInput =
  showEpisodeNumber :: "bool option"
  showProgress :: "bool option"
  buttonText :: "string option"
  injectContext :: "bool option"
  theme :: "theme option"

record InitStateType =
  totalEpisodes :: int
  characterName :: string
  episodeTitles :: "string list"

text \<open>
  The turn snapshot. As an argument of \<open>setState\<close> its index may be missing or
  \<open>NaN\<close>, which is \<open>None\<close>; the snapshots that the stage returns carry an index.
\<close>

record MessageStateType =
  currentEpisode :: "int option"
  startedAt :: nat
  lastEvent :: "string option"
  lastData :: "Message option"

record ChatStateType =
  highestEpisodeReached :: int
  completed :: bool

text \<open>
  The constructor's argument; its \<open>users\<close> are only written to the log and left out.
  An entry of \<open>characters\<close> that is \<open>null\<close> or \<open>undefined\<close> is \<open>None\<close>.
\<close>

record InitialData =
  characters :: "Character option js_array"
  config :: "ConfigInput option"
  initState :: "InitStateType option"
  chatState :: "ChatStateType option"
  messageState :: "MessageStateType option"

record LoadResponse =
  success :: bool
  error :: "string option"
  initState :: InitStateType
  chatState :: ChatStateType

record StageResponse =
  stateMessage :: string
  messageState :: MessageStateType
  chatState :: ChatStateType
  modifiedMessage :: "string option"
  systemMessage :: "string option"

datatype log_data =
    ConstructorLog InitialData
  | LoadLog LoadResponse
  | CurrentStateLog Message int int int bool
  | ResponseLog StageResponse
  | SetStateLog "MessageStateType option" int
  | NextEpisodeLog int int bool
  | PreviousEpisodeLog int

record DebugLogEntry =
  timestamp :: nat
  event :: string
  data :: log_data

record Stage =
  debugLog :: "DebugLogEntry list"
  currentEpisode :: int
  totalEpisodes :: int
  episodeTitles :: "string list"
  characterName :: string
  highestEpisodeReached :: int
  completed :: bool
  config :: ConfigType

section \<open>The operations of the stage\<close>

text \<open>
  \<open>Date.now()\<close> is an input: every operation takes a clock \<open>clk\<close>, and \<open>clk k\<close> is
  what the \<open>k\<close>-th reading of the time during the call returns. The callback
  \<open>onDebugUpdate\<close> and \<open>console.log\<close> belong to the host and do not touch the stage.
\<close>

definition addDebugLog :: "nat \<Rightarrow> string \<Rightarrow> log_data \<Rightarrow> Stage \<Rightarrow> Stage" where
  "addDebugLog now ev d st =
     (let entries = debugLog st @ [\<lparr>timestamp = now, event = ev, data = d\<rparr>]
      in st\<lparr>debugLog := (if length entries > 50 then drop (length entries - 50) entries
                          else entries)\<rparr>)"

definition clearDebugLog :: "Stage \<Rightarrow> Stage" where
  "clearDebugLog st = st\<lparr>debugLog := []\<rparr>"

definition default_config :: ConfigType where
  "default_config =
     \<lparr>ConfigType.showEpisodeNumber = True, ConfigType.showProgress = True,
      ConfigType.buttonText = ''Next Episode'', ConfigType.injectContext = True,
      ConfigType.theme = Chubflix\<rparr>"

text \<open>The spread \<open>{ ...this.config, ...data.config }\<close>.\<close>

definition merge_config :: "ConfigType \<Rightarrow> ConfigInput \<Rightarrow> ConfigType" where
  "merge_config c i =
     \<lparr>ConfigType.showEpisodeNumber =
        (case ConfigInput.showEpisodeNumber i of Some b \<Rightarrow> b | None \<Rightarrow> ConfigType.showEpisodeNumber c),
      ConfigType.showProgress =
        (case ConfigInput.showProgress i of Some b \<Rightarrow> b | None \<Rightarrow> ConfigType.showProgress c),
      ConfigType.buttonText =
        (case ConfigInput.buttonText i of Some b \<Rightarrow> b | None \<Rightarrow> ConfigType.buttonText c),
      ConfigType.injectContext =
        (case ConfigInput.injectContext i of Some b \<Rightarrow> b | None \<Rightarrow> ConfigType.injectContext c),
      ConfigType.theme =
        (case ConfigInput.theme i of Some b \<Rightarrow> b | None \<Rightarrow> ConfigType.theme c)\<rparr>"

text \<open>
  The call \<open>extractTitleFromGreeting(greeting)\<close> with a value of any kind: the
  function starts with \<open>greeting.trim()\<close>, which raises \<open>TypeError\<close> on a value that
  is no string.
\<close>

fun extractTitle_call :: "js_text \<Rightarrow> error + string option" where
  "extractTitle_call (Str greeting) = Inr (extractTitleFromGreeting greeting)"
| "extractTitle_call _ = Inl TypeError"

text \<open>
  The loop \<open>alternate_greetings.forEach((greeting, index) => ...)\<close>: the titles pushed
  from position \<open>index\<close> on, or the exception of the first call that raises one.
\<close>

fun forEach_titles :: "nat \<Rightarrow> js_text list \<Rightarrow> error + string list" where
  "forEach_titles index [] = Inr []"
| "forEach_titles index (greeting # rest) =
     (case extractTitle_call greeting of
        Inl e \<Rightarrow> Inl e
      | Inr title \<Rightarrow>
          (case forEach_titles (Suc index) rest of
             Inl e \<Rightarrow> Inl e
           | Inr titles \<Rightarrow>
               Inr (or_str title (''Episode '' @ show_int (int index + 2)) # titles)))"

definition extractEpisodeTitles :: "Character \<Rightarrow> error + string list" where
  "extractEpisodeTitles character =
     (case (if truthy (first_mes character)
            then (case extractTitle_call (first_mes character) of
                    Inl e \<Rightarrow> Inl e
                  | Inr title \<Rightarrow> Inr [or_str title ''Episode 1''])
            else Inr []) of
        Inl e \<Rightarrow> Inl e
      | Inr titles \<Rightarrow>
          (case alternate_greetings character of
             Arr gs \<Rightarrow>
               (case forEach_titles 0 gs of
                  Inl e \<Rightarrow> Inl e
                | Inr others \<Rightarrow> Inr (titles @ others))
           | _ \<Rightarrow> Inr titles))"

text \<open>The field initialisers of the class, which run before the body of the constructor.\<close>

definition initial_fields :: Stage where
  "initial_fields =
     \<lparr>debugLog = [], currentEpisode = 0, totalEpisodes = 1, episodeTitles = [],
      characterName = [], highestEpisodeReached = 0, completed = False,
      config = default_config\<rparr>"

text \<open>
  The constructor returns the stage or the exception it raises: reading \<open>mainChar.name\<close>
  of a first character that is \<open>null\<close> or \<open>undefined\<close> raises \<open>TypeError\<close>, and so
  does the extraction of the titles from a greeting that is no string.
\<close>

definition constructor :: "(nat \<Rightarrow> nat) \<Rightarrow> InitialData \<Rightarrow> error + Stage" where
  "constructor clk d =
     (let st1 = addDebugLog (clk 0) ''constructor'' (ConstructorLog d) initial_fields;
          st2 = (case InitialData.config d of
                   Some c \<Rightarrow> st1\<lparr>config := merge_config (config st1) c\<rparr>
                 | None \<Rightarrow> st1)
      in case characters d of
           Arr (None # _) \<Rightarrow> Inl TypeError
         | Arr (Some mainChar # _) \<Rightarrow>
             (case extractEpisodeTitles mainChar of
                Inl e \<Rightarrow> Inl e
              | Inr titles \<Rightarrow>
                  Inr (st2\<lparr>characterName := or_str (name mainChar) ''Character'',
                           totalEpisodes :=
                             1 + (case alternate_greetings mainChar of
                                    Arr gs \<Rightarrow> int (length gs) | _ \<Rightarrow> 0),
                           episodeTitles := titles\<rparr>))
         | _ \<Rightarrow> Inr st2)"

text \<open>
  The inputs on which the constructor raises nothing: no first character, or a first
  character that is an object, whose first greeting is a string or falsy and whose
  alternate greetings, when they are an array, are strings.
\<close>

definition accepted :: "InitialData \<Rightarrow> bool" where
  "accepted d =
     (case characters d of
        Arr (None # _) \<Rightarrow> False
      | Arr (Some mainChar # _) \<Rightarrow>
          first_mes mainChar \<noteq> Truthy
          \<and> (case alternate_greetings mainChar of Arr gs \<Rightarrow> list_all is_string gs | _ \<Rightarrow> True)
      | _ \<Rightarrow> True)"

definition load :: "(nat \<Rightarrow> nat) \<Rightarrow> Stage \<Rightarrow> LoadResponse \<times> Stage" where
  "load clk st =
     (let response =
        \<lparr>success = True, error = None,
         initState = \<lparr>InitStateType.totalEpisodes = totalEpisodes st,
                      InitStateType.characterName = characterName st,
                      InitStateType.episodeTitles = episodeTitles st\<rparr>,
         chatState = \<lparr>ChatStateType.highestEpisodeReached = highestEpisodeReached st,
                      ChatStateType.completed = completed st\<rparr>\<rparr>
      in (response, addDebugLog (clk 0) ''load'' (LoadLog response) st))"

text \<open>The template \<open>Episode ${currentEpisode + 1}/${totalEpisodes}\<close> of the two turn hooks.\<close>

definition state_message :: "Stage \<Rightarrow> string" where
  "state_message st =
     ''Episode '' @ show_int (currentEpisode st + 1) @ ''/'' @ show_int (totalEpisodes st)"

definition beforePrompt :: "(nat \<Rightarrow> nat) \<Rightarrow> Message \<Rightarrow> Stage \<Rightarrow> StageResponse \<times> Stage" where
  "beforePrompt clk userMessage st0 =
     (let st = addDebugLog (clk 0) ''beforePrompt''
                 (CurrentStateLog userMessage (currentEpisode st0) (totalEpisodes st0)
                    (highestEpisodeReached st0) (completed st0)) st0;
          addSystem =
            (if ConfigType.injectContext (config st)
             then
               (let episodeTitle =
                      or_str (js_index (episodeTitles st) (currentEpisode st))
                        (''Episode '' @ show_int (currentEpisode st + 1))
                in Some (''[Chubflix Episode Context: Currently on '' @ episodeTitle @ '' (''
                         @ show_int (currentEpisode st + 1) @ ''/''
                         @ show_int (totalEpisodes st)
                         @ ''). Maintain narrative continuity with previous episodes.]''))
             else None);
          response =
            \<lparr>stateMessage = state_message st,
             messageState =
               \<lparr>MessageStateType.currentEpisode = Some (currentEpisode st),
                startedAt = clk 1, lastEvent = Some ''beforePrompt'',
                lastData = Some userMessage\<rparr>,
             chatState =
               \<lparr>ChatStateType.highestEpisodeReached =
                  max (highestEpisodeReached st) (currentEpisode st),
                ChatStateType.completed = completed st\<rparr>,
             modifiedMessage = None,
             systemMessage = addSystem\<rparr>
      in (response, addDebugLog (clk 2) ''beforePrompt_response'' (ResponseLog response) st))"

definition afterResponse :: "(nat \<Rightarrow> nat) \<Rightarrow> Message \<Rightarrow> Stage \<Rightarrow> StageResponse \<times> Stage" where
  "afterResponse clk botMessage st0 =
     (let st = addDebugLog (clk 0) ''afterResponse''
                 (CurrentStateLog botMessage (currentEpisode st0) (totalEpisodes st0)
                    (highestEpisodeReached st0) (completed st0)) st0;
          response =
            \<lparr>stateMessage = state_message st,
             messageState =
               \<lparr>MessageStateType.currentEpisode = Some (currentEpisode st),
                startedAt = clk 1, lastEvent = Some ''afterResponse'',
                lastData = Some botMessage\<rparr>,
             chatState =
               \<lparr>ChatStateType.highestEpisodeReached =
                  max (highestEpisodeReached st) (currentEpisode st),
                ChatStateType.completed = (currentEpisode st \<ge> totalEpisodes st - 1)\<rparr>,
             modifiedMessage = None,
             systemMessage = None\<rparr>
      in (response, addDebugLog (clk 2) ''afterResponse_response'' (ResponseLog response) st))"

definition setState :: "(nat \<Rightarrow> nat) \<Rightarrow> MessageStateType option \<Rightarrow> Stage \<Rightarrow> Stage" where
  "setState clk state st0 =
     (let st = addDebugLog (clk 0) ''setState'' (SetStateLog state (currentEpisode st0)) st0
      in case state of
           None \<Rightarrow> st
         | Some ms \<Rightarrow> st\<lparr>currentEpisode := or_num (MessageStateType.currentEpisode ms) 0\<rparr>)"

definition goToNextEpisode :: "(nat \<Rightarrow> nat) \<Rightarrow> Stage \<Rightarrow> Stage" where
  "goToNextEpisode clk st =
     (if currentEpisode st < totalEpisodes st - 1
      then
        (let st1 = st\<lparr>currentEpisode := currentEpisode st + 1\<rparr>;
             st2 = st1\<lparr>highestEpisodeReached :=
                         max (highestEpisodeReached st1) (currentEpisode st1)\<rparr>;
             st3 = (if currentEpisode st2 \<ge> totalEpisodes st2 - 1
                    then st2\<lparr>completed := True\<rparr> else st2)
         in addDebugLog (clk 0) ''goToNextEpisode''
              (NextEpisodeLog (currentEpisode st3) (highestEpisodeReached st3) (completed st3))
              st3)
      else st)"

definition goToPreviousEpisode :: "(nat \<Rightarrow> nat) \<Rightarrow> Stage \<Rightarrow> Stage" where
  "goToPreviousEpisode clk st =
     (if currentEpisode st > 0
      then
        (let st1 = st\<lparr>currentEpisode := currentEpisode st - 1\<rparr>
         in addDebugLog (clk 0) ''goToPreviousEpisode''
              (PreviousEpisodeLog (currentEpisode st1)) st1)
      else st)"

section \<open>Sequences of calls\<close>

text \<open>
  What the host and the two buttons can do to a stage, one call at a time; \<open>step\<close>
  keeps the stage and drops the value a call returns.
\<close>

datatype call =
    Load "nat \<Rightarrow> nat"
  | BeforePrompt "nat \<Rightarrow> nat" Message
  | AfterResponse "nat \<Rightarrow> nat" Message
  | SetState "nat \<Rightarrow> nat" "MessageStateType option"
  | NextEpisode "nat \<Rightarrow> nat"
  | PreviousEpisode "nat \<Rightarrow> nat"
  | ClearDebugLog

fun step :: "call \<Rightarrow> Stage \<Rightarrow> Stage" where
  "step (Load clk) st = snd (load clk st)"
| "step (BeforePrompt clk m) st = snd (beforePrompt clk m st)"
| "step (AfterResponse clk m) st = snd (afterResponse clk m st)"
| "step (SetState clk ms) st = setState clk ms st"
| "step (NextEpisode clk) st = goToNextEpisode clk st"
| "step (PreviousEpisode clk) st = goToPreviousEpisode clk st"
| "step ClearDebugLog st = clearDebugLog st"

definition run :: "call list \<Rightarrow> Stage \<Rightarrow> Stage" where
  "run cs st = fold step cs st"

text \<open>The calls of the navigation machine proper: advance, retreat and the turn start.\<close>

fun is_navigation :: "call \<Rightarrow> bool" where
  "is_navigation (NextEpisode _) = True"
| "is_navigation (PreviousEpisode _) = True"
| "is_navigation (BeforePrompt _ _) = True"
| "is_navigation _ = False"

section \<open>A character with three greetings\<close>

text \<open>
  The stage of a character whose first greeting is titled in bold and who has two
  alternate greetings, the second of them a plain short line.
\<close>

definition pilot_character :: Character where
  "pilot_character =
     \<lparr>name = Some ''Sofia Mendes'', first_mes = Str ''**Pilot**\<newline>Hello'',
      alternate_greetings = Arr [Str ''**Twist**\<newline>A turn'', Str ''Goodbye for now'']\<rparr>"

definition pilot_data :: InitialData where
  "pilot_data =
     \<lparr>characters = Arr [Some pilot_character], InitialData.config = None,
      InitialData.initState = None, InitialData.chatState = None,
      InitialData.messageState = None\<rparr>"

definition tick :: "nat \<Rightarrow> nat" where
  "tick k = 1000 + k"

text \<open>The stage that the constructor returns for this character at the clock \<open>tick\<close>.\<close>

definition pilot_stage :: Stage where
  "pilot_stage =
     \<lparr>debugLog = [\<lparr>timestamp = 1000, event = ''constructor'', data = ConstructorLog pilot_data\<rparr>],
      currentEpisode = 0, totalEpisodes = 3,
      episodeTitles = [''Pilot'', ''Twist'', ''Goodbye for now''],
      characterName = ''Sofia Mendes'', highestEpisodeReached = 0, completed = False,
      config = default_config\<rparr>"

text \<open>
  A character without a name and without greetings, a host that sends no character, a
  host that sends \<open>null\<close> for the character, and a character with an alternate greeting
  that is \<open>null\<close>.
\<close>

definition bare_data :: InitialData where
  "bare_data =
     \<lparr>characters = Arr [Some \<lparr>name = None, first_mes = Falsy, alternate_greetings = NonArray\<rparr>],
      InitialData.config = None, InitialData.initState = None, InitialData.chatState = None,
      InitialData.messageState = None\<rparr>"

definition empty_data :: InitialData where
  "empty_data =
     \<lparr>characters = Absent, InitialData.config = None, InitialData.initState = None,
      InitialData.chatState = None, InitialData.messageState = None\<rparr>"

definition null_character_data :: InitialData where
  "null_character_data =
     \<lparr>characters = Arr [None], InitialData.config = None, InitialData.initState = None,
      InitialData.chatState = None, InitialData.messageState = None\<rparr>"

definition null_greeting_data :: InitialData where
  "null_greeting_data =
     \<lparr>characters = Arr [Some \<lparr>name = Some ''Ann'', first_mes = Str ''Hello'',
                               alternate_greetings = Arr [Falsy]\<rparr>],
      InitialData.config = None, InitialData.initState = None, InitialData.chatState = None,
      InitialData.messageState = None\<rparr>"

text \<open>A turn snapshot with the index \<open>i\<close>.\<close>

definition snapshot :: "int option \<Rightarrow> MessageStateType" where
  "snapshot i =
     \<lparr>MessageStateType.currentEpisode = i, startedAt = 1000, lastEvent = None, lastData = None\<rparr>"

section \<open>Evaluation and frame lemmas\<close>

lemmas title_eval =
  extractTitleFromGreeting_def patterns_def p_bold_def p_heading_def p_quoted_def p_episode_def
  trim_def is_white_space_def lit_def lit_i_def not_chr_def dot_def digit_def first_line_def
  is_marker_def Let_def

lemma show_nat_digits [simp]:
  "show_nat 0 = ''0''" "show_nat 1 = ''1''" "show_nat (Suc 0) = ''1''" "show_nat 2 = ''2''"
  "show_nat 3 = ''3''" "show_nat 8 = ''8''"
  by (simp_all add: show_nat.simps digit_char_def)

lemma or_str_case:
  "or_str x dflt = (case x of None \<Rightarrow> dflt | Some t \<Rightarrow> if t = [] then dflt else t)"
  by (cases x) simp_all

lemma or_str_eq_Nil:
  "or_str x d = [] \<longleftrightarrow> d = [] \<and> (x = None \<or> x = Some [])"
  "[] = or_str x d \<longleftrightarrow> d = [] \<and> (x = None \<or> x = Some [])"
  by (cases x; auto)+

lemma addDebugLog_fields [simp]:
  "currentEpisode (addDebugLog t e d st) = currentEpisode st"
  "totalEpisodes (addDebugLog t e d st) = totalEpisodes st"
  "episodeTitles (addDebugLog t e d st) = episodeTitles st"
  "characterName (addDebugLog t e d st) = characterName st"
  "highestEpisodeReached (addDebugLog t e d st) = highestEpisodeReached st"
  "completed (addDebugLog t e d st) = completed st"
  "config (addDebugLog t e d st) = config st"
  by (simp_all add: addDebugLog_def Let_def)

lemma addDebugLog_twice:
  "debugLog (addDebugLog t2 e2 d2 (addDebugLog t1 e1 d1 st))
     = (let entries = debugLog st @ [\<lparr>timestamp = t1, event = e1, data = d1\<rparr>,
                                     \<lparr>timestamp = t2, event = e2, data = d2\<rparr>]
        in drop (length entries - 50) entries)"
proof -
  have "Suc (n - 49) = n - 48" if "49 < n" for n :: nat
    using that by arith
  then show ?thesis
    by (auto simp add: addDebugLog_def Let_def)
qed

lemma beforePrompt_fields [simp]:
  "currentEpisode (snd (beforePrompt clk m st)) = currentEpisode st"
  "totalEpisodes (snd (beforePrompt clk m st)) = totalEpisodes st"
  "episodeTitles (snd (beforePrompt clk m st)) = episodeTitles st"
  "characterName (snd (beforePrompt clk m st)) = characterName st"
  "highestEpisodeReached (snd (beforePrompt clk m st)) = highestEpisodeReached st"
  "completed (snd (beforePrompt clk m st)) = completed st"
  "config (snd (beforePrompt clk m st)) = config st"
  by (simp_all add: beforePrompt_def Let_def)

lemma afterResponse_fields [simp]:
  "currentEpisode (snd (afterResponse clk m st)) = currentEpisode st"
  "totalEpisodes (snd (afterResponse clk m st)) = totalEpisodes st"
  "episodeTitles (snd (afterResponse clk m st)) = episodeTitles st"
  "characterName (snd (afterResponse clk m st)) = characterName st"
  "highestEpisodeReached (snd (afterResponse clk m st)) = highestEpisodeReached st"
  "completed (snd (afterResponse clk m st)) = completed st"
  "config (snd (afterResponse clk m st)) = config st"
  by (simp_all add: afterResponse_def Let_def)

lemma load_fields [simp]:
  "currentEpisode (snd (load clk st)) = currentEpisode st"
  "totalEpisodes (snd (load clk st)) = totalEpisodes st"
  "episodeTitles (snd (load clk st)) = episodeTitles st"
  "characterName (snd (load clk st)) = characterName st"
  "highestEpisodeReached (snd (load clk st)) = highestEpisodeReached st"
  "completed (snd (load clk st)) = completed st"
  "config (snd (load clk st)) = config st"
  by (simp_all add: load_def Let_def)

lemma clearDebugLog_fields [simp]:
  "currentEpisode (clearDebugLog st) = currentEpisode st"
  "totalEpisodes (clearDebugLog st) = totalEpisodes st"
  "episodeTitles (clearDebugLog st) = episodeTitles st"
  "characterName (clearDebugLog st) = characterName st"
  "highestEpisodeReached (clearDebugLog st) = highestEpisodeReached st"
  "completed (clearDebugLog st) = completed st"
  "config (clearDebugLog st) = config st"
  by (simp_all add: clearDebugLog_def)

lemma setState_fields [simp]:
  "totalEpisodes (setState clk ms st) = totalEpisodes st"
  "episodeTitles (setState clk ms st) = episodeTitles st"
  "characterName (setState clk ms st) = characterName st"
  "highestEpisodeReached (setState clk ms st) = highestEpisodeReached st"
  "completed (setState clk ms st) = completed st"
  "config (setState clk ms st) = config st"
  by (simp_all add: setState_def Let_def split: option.split)

lemma setState_current:
  "currentEpisode (setState clk ms st) =
     (case ms of None \<Rightarrow> currentEpisode st
      | Some s \<Rightarrow> or_num (MessageStateType.currentEpisode s) 0)"
  by (simp add: setState_def Let_def split: option.split)

lemma goToNextEpisode_fields [simp]:
  "totalEpisodes (goToNextEpisode clk st) = totalEpisodes st"
  "episodeTitles (goToNextEpisode clk st) = episodeTitles st"
  "characterName (goToNextEpisode clk st) = characterName st"
  "config (goToNextEpisode clk st) = config st"
  by (simp_all add: goToNextEpisode_def Let_def)

lemma goToNextEpisode_nav:
  "currentEpisode (goToNextEpisode clk st) =
     (if currentEpisode st < totalEpisodes st - 1 then currentEpisode st + 1 else currentEpisode st)"
  "highestEpisodeReached (goToNextEpisode clk st) =
     (if currentEpisode st < totalEpisodes st - 1
      then max (highestEpisodeReached st) (currentEpisode st + 1) else highestEpisodeReached st)"
  "completed (goToNextEpisode clk st) =
     (completed st \<or> currentEpisode st = totalEpisodes st - 2)"
  by (auto simp add: goToNextEpisode_def Let_def)

lemma goToPreviousEpisode_fields [simp]:
  "totalEpisodes (goToPreviousEpisode clk st) = totalEpisodes st"
  "episodeTitles (goToPreviousEpisode clk st) = episodeTitles st"
  "characterName (goToPreviousEpisode clk st) = characterName st"
  "highestEpisodeReached (goToPreviousEpisode clk st) = highestEpisodeReached st"
  "completed (goToPreviousEpisode clk st) = completed st"
  "config (goToPreviousEpisode clk st) = config st"
  by (simp_all add: goToPreviousEpisode_def Let_def)

lemma goToPreviousEpisode_nav:
  "currentEpisode (goToPreviousEpisode clk st) =
     (if currentEpisode st > 0 then currentEpisode st - 1 else currentEpisode st)"
  by (simp add: goToPreviousEpisode_def Let_def)

lemma step_fields [simp]:
  "totalEpisodes (step c st) = totalEpisodes st"
  "episodeTitles (step c st) = episodeTitles st"
  "characterName (step c st) = characterName st"
  "config (step c st) = config st"
  by (cases c; simp)+

lemma run_Nil [simp]: "run [] st = st"
  by (simp add: run_def)

lemma run_Cons [simp]: "run (c # cs) st = run cs (step c st)"
  by (simp add: run_def)

lemma run_append: "run (xs @ ys) st = run ys (run xs st)"
  by (simp add: run_def)

lemma run_fields [simp]:
  "totalEpisodes (run cs st) = totalEpisodes st"
  "episodeTitles (run cs st) = episodeTitles st"
  "characterName (run cs st) = characterName st"
  "config (run cs st) = config st"
  by (induction cs arbitrary: st; simp)+

section \<open>Invariants of the navigation state\<close>

lemma step_completed: "completed st \<Longrightarrow> completed (step c st)"
  by (cases c) (simp_all add: goToNextEpisode_nav)

lemma run_completed: "completed st \<Longrightarrow> completed (run cs st)"
  by (induction cs arbitrary: st) (simp_all add: step_completed)

lemma step_highest: "highestEpisodeReached st \<le> highestEpisodeReached (step c st)"
  by (cases c) (simp_all add: goToNextEpisode_nav)

lemma run_highest: "highestEpisodeReached st \<le> highestEpisodeReached (run cs st)"
proof (induction cs arbitrary: st)
  case Nil
  show ?case by simp
next
  case (Cons c cs)
  have "highestEpisodeReached st \<le> highestEpisodeReached (step c st)"
    by (rule step_highest)
  also have "\<dots> \<le> highestEpisodeReached (run cs (step c st))"
    by (rule Cons.IH)
  finally show ?case by simp
qed

lemma step_bounds:
  assumes "is_navigation c" "0 \<le> currentEpisode st" "currentEpisode st \<le> totalEpisodes st - 1"
  shows "0 \<le> currentEpisode (step c st) \<and> currentEpisode (step c st) \<le> totalEpisodes st - 1"
  using assms by (cases c) (simp_all add: goToNextEpisode_nav goToPreviousEpisode_nav)

lemma run_bounds:
  assumes "list_all is_navigation cs" "0 \<le> currentEpisode st"
    "currentEpisode st \<le> totalEpisodes st - 1"
  shows "0 \<le> currentEpisode (run cs st) \<and> currentEpisode (run cs st) \<le> totalEpisodes st - 1"
  using assms
proof (induction cs arbitrary: st)
  case Nil
  then show ?case by simp
next
  case (Cons c cs)
  from Cons.prems have nav: "is_navigation c" and rest: "list_all is_navigation cs"
    by simp_all
  from step_bounds [OF nav Cons.prems(2,3)]
  have "0 \<le> currentEpisode (step c st)"
    and "currentEpisode (step c st) \<le> totalEpisodes (step c st) - 1"
    by simp_all
  from Cons.IH [OF rest this] show ?case by simp
qed

lemma error_is_TypeError: "(e :: error) = TypeError"
  by (cases e) simp

lemma forEach_titles_strings:
  "forEach_titles n (map Str gs) =
     Inr (map (\<lambda>(index, greeting).
            or_str (extractTitleFromGreeting greeting) (''Episode '' @ show_int (int index + 2)))
          (enumerate n gs))"
  by (induction gs arbitrary: n) simp_all

lemma forEach_titles_Inr_iff:
  "(\<exists>titles. forEach_titles n xs = Inr titles) \<longleftrightarrow> list_all is_string xs"
proof (induction xs arbitrary: n)
  case Nil
  show ?case by simp
next
  case (Cons x xs)
  show ?case
  proof (cases x)
    case (Str g)
    with Cons.IH [of "Suc n"] show ?thesis
      by (auto split: sum.splits)
  qed simp_all
qed

lemma forEach_titles_length: "forEach_titles n xs = Inr titles \<Longrightarrow> length titles = length xs"
proof (induction xs arbitrary: n titles)
  case Nil
  then show ?case by simp
next
  case (Cons x xs)
  then show ?case
    by (cases x) (auto split: sum.splits)
qed

lemma forEach_titles_nonempty:
  "forEach_titles n xs = Inr titles \<Longrightarrow> t \<in> set titles \<Longrightarrow> t \<noteq> []"
proof (induction xs arbitrary: n titles)
  case Nil
  then show ?case by simp
next
  case (Cons x xs)
  then show ?case
    by (cases x) (auto simp add: or_str_eq_Nil split: sum.splits)
qed

lemma extractEpisodeTitles_Inr_iff:
  "(\<exists>titles. extractEpisodeTitles ch = Inr titles) \<longleftrightarrow>
     first_mes ch \<noteq> Truthy
     \<and> (case alternate_greetings ch of Arr gs \<Rightarrow> list_all is_string gs | _ \<Rightarrow> True)"
proof -
  have first: "(\<exists>titles. (if truthy (first_mes ch)
            then (case extractTitle_call (first_mes ch) of
                    Inl e \<Rightarrow> Inl e
                  | Inr title \<Rightarrow> Inr [or_str title ''Episode 1''])
            else Inr []) = Inr titles) \<longleftrightarrow> first_mes ch \<noteq> Truthy"
    by (cases "first_mes ch") auto
  show ?thesis
  proof (cases "alternate_greetings ch")
    case (Arr gs)
    with first forEach_titles_Inr_iff [of 0 gs] show ?thesis
      by (auto simp add: extractEpisodeTitles_def split: sum.splits)
  next
    case Absent
    with first show ?thesis
      by (auto simp add: extractEpisodeTitles_def split: sum.splits)
  next
    case NonArray
    with first show ?thesis
      by (auto simp add: extractEpisodeTitles_def split: sum.splits)
  qed
qed

lemma extractEpisodeTitles_nonempty:
  "extractEpisodeTitles ch = Inr titles \<Longrightarrow> t \<in> set titles \<Longrightarrow> t \<noteq> []"
  by (auto simp add: extractEpisodeTitles_def or_str_eq_Nil
        dest: forEach_titles_nonempty split: sum.splits js_array.splits if_splits)

lemma constructor_accepted: "(\<exists>st. constructor clk d = Inr st) \<longleftrightarrow> accepted d"
proof (cases "characters d")
  case (Arr cs)
  show ?thesis
  proof (cases cs)
    case Nil
    with Arr show ?thesis
      by (simp add: constructor_def accepted_def Let_def)
  next
    case (Cons c rest)
    show ?thesis
    proof (cases c)
      case None
      with Arr Cons show ?thesis
        by (simp add: constructor_def accepted_def Let_def)
    next
      case (Some ch)
      with Arr Cons extractEpisodeTitles_Inr_iff [of ch] show ?thesis
        by (auto simp add: constructor_def accepted_def Let_def split: sum.splits)
    qed
  qed
qed (simp_all add: constructor_def accepted_def Let_def)

lemma constructor_rejected: "\<not> accepted d \<Longrightarrow> constructor clk d = Inl TypeError"
  using constructor_accepted [of clk d] error_is_TypeError
  by (cases "constructor clk d") auto

lemma constructor_start:
  assumes "constructor clk d = Inr st"
  shows "currentEpisode st = 0" and "highestEpisodeReached st = 0" and "completed st = False"
    and "1 \<le> totalEpisodes st"
  using assms
  by (auto simp add: constructor_def initial_fields_def Let_def
        split: option.splits js_array.splits list.splits sum.splits)

lemma constructor_titles_length:
  assumes "constructor clk d = Inr st" and "characters d = Arr (Some ch # rest)"
    and "first_mes ch = Str g" and "g \<noteq> []"
  shows "totalEpisodes st = int (length (episodeTitles st))"
  using assms
  by (cases "alternate_greetings ch")
     (auto simp add: constructor_def Let_def extractEpisodeTitles_def
        dest: forEach_titles_length split: sum.splits)

lemma constructor_titles_nonempty:
  "constructor clk d = Inr st \<Longrightarrow> t \<in> set (episodeTitles st) \<Longrightarrow> t \<noteq> []"
  by (auto simp add: constructor_def initial_fields_def Let_def
        dest: extractEpisodeTitles_nonempty
        split: option.splits js_array.splits list.splits sum.splits)

section \<open>The stage of the three greetings\<close>

lemma extract_pilot: "extractTitleFromGreeting ''**Pilot**\<newline>Hello'' = Some ''Pilot''"
  by (simp add: title_eval)

lemma extract_twist: "extractTitleFromGreeting ''**Twist**\<newline>A turn'' = Some ''Twist''"
  by (simp add: title_eval)

lemma extract_goodbye: "extractTitleFromGreeting ''Goodbye for now'' = Some ''Goodbye for now''"
  by (simp add: title_eval)

lemma extract_rule_line: "extractTitleFromGreeting ''***\<newline>It was a dark night'' = Some []"
  by (simp add: title_eval)

lemma pilot_titles:
  "extractEpisodeTitles pilot_character = Inr [''Pilot'', ''Twist'', ''Goodbye for now'']"
  by (simp add: extractEpisodeTitles_def pilot_character_def extract_pilot extract_twist
        extract_goodbye)

lemma pilot_constructed_at:
  "constructor clk pilot_data =
     Inr (pilot_stage\<lparr>debugLog :=
            [\<lparr>timestamp = clk 0, event = ''constructor'', data = ConstructorLog pilot_data\<rparr>]\<rparr>)"
proof -
  have d: "characters pilot_data = Arr [Some pilot_character]"
    "InitialData.config pilot_data = None"
    by (simp_all add: pilot_data_def)
  have ch: "name pilot_character = Some ''Sofia Mendes''"
    "alternate_greetings pilot_character
       = Arr [Str ''**Twist**\<newline>A turn'', Str ''Goodbye for now'']"
    by (simp_all add: pilot_character_def)
  show ?thesis
    by (simp add: constructor_def Let_def d ch pilot_titles pilot_stage_def initial_fields_def
          addDebugLog_def)
qed

lemma pilot_constructed: "constructor tick pilot_data = Inr pilot_stage"
  by (simp add: pilot_constructed_at) (simp add: pilot_stage_def tick_def)

lemma pilot_stage_fields:
  "currentEpisode pilot_stage = 0"
  "totalEpisodes pilot_stage = 3"
  "episodeTitles pilot_stage = [''Pilot'', ''Twist'', ''Goodbye for now'']"
  "characterName pilot_stage = ''Sofia Mendes''"
  "highestEpisodeReached pilot_stage = 0"
  "completed pilot_stage = False"
  "config pilot_stage = default_config"
  by (simp_all add: pilot_stage_def)

lemma pilot_walk:
  "currentEpisode (run [NextEpisode tick, NextEpisode tick] pilot_stage) = 2"
  "highestEpisodeReached (run [NextEpisode tick, NextEpisode tick] pilot_stage) = 2"
  "completed (run [NextEpisode tick, NextEpisode tick] pilot_stage) = True"
  "totalEpisodes (run [NextEpisode tick, NextEpisode tick] pilot_stage) = 3"
  by (simp_all add: goToNextEpisode_nav pilot_stage_fields)

section \<open>What the matcher computes\<close>

text \<open>
  A greedy repetition followed by a character outside its class can only stop at the end
  of the run, and so can a lazy run of \<open>.\<close> before the end of the line. Hence the
  bold and the quoted pattern match exactly the texts that open with a delimited,
  non-empty body free of the delimiter.
\<close>

lemma first_some_all_None: "(\<And>x. x \<in> set xs \<Longrightarrow> x = None) \<Longrightarrow> first_some xs = None"
  by (induction xs rule: first_some.induct) auto

lemma upt_rev_top: "mn \<le> mx \<Longrightarrow> rev [mn..<Suc mx] = mx # rev [mn..<mx]"
  by simp

lemma drop_takeWhile_head:
  assumes "k < length (takeWhile P s)"
  shows "\<exists>c r. drop k s = c # r \<and> P c"
proof -
  from assms have "k < length s"
    using length_takeWhile_le [of P s] by linarith
  then have "drop k s = s ! k # drop (Suc k) s"
    by (simp add: Cons_nth_drop_Suc)
  moreover from assms have "P (s ! k)"
    using nth_mem [OF assms] set_takeWhileD [of "takeWhile P s ! k" P s]
    by (simp add: takeWhile_nth)
  ultimately show ?thesis
    by blast
qed

lemma rx_greedy_then_other:
  assumes "\<And>c. P c \<Longrightarrow> \<not> Q c"
  shows "rx_run (Rep P mn Greedy capt # One Q # items) s cap =
     (if mn \<le> length (takeWhile P s)
      then rx_run (One Q # items) (dropWhile P s)
             (if capt then takeWhile P s else cap)
      else None)"
proof (cases "mn \<le> length (takeWhile P s)")
  case False
  then show ?thesis
    by simp
next
  case True
  let ?mx = "length (takeWhile P s)"
  let ?f = "\<lambda>k. rx_run (One Q # items) (drop k s) (if capt then take k s else cap)"
  have shorter: "?f k = None" if "k < ?mx" for k
  proof -
    from drop_takeWhile_head [OF that] obtain c r where "drop k s = c # r" "P c"
      by blast
    with assms show ?thesis
      by simp
  qed
  have rest: "first_some (map ?f (rev [mn..<?mx])) = None"
    by (rule first_some_all_None) (auto simp add: shorter simp del: rx_run.simps)
  have top: "drop ?mx s = dropWhile P s" "take ?mx s = takeWhile P s"
    by (rule dropWhile_eq_drop [symmetric], rule takeWhile_eq_take [symmetric])
  have "rx_run (Rep P mn Greedy capt # One Q # items) s cap
      = first_some (map ?f (rev [mn..<Suc ?mx]))"
    by (simp only: rx_run.simps(3) Let_def quant.case)
  also have "rev [mn..<Suc ?mx] = ?mx # rev [mn..<?mx]"
    using True by (rule upt_rev_top)
  also have "first_some (map ?f (?mx # rev [mn..<?mx])) = first_some (?f ?mx # map ?f (rev [mn..<?mx]))"
    by (simp only: list.map)
  also have "\<dots> = ?f ?mx"
    using rest by (cases "?f ?mx") simp_all
  finally show ?thesis
    using True by (simp add: top del: rx_run.simps(2))
qed

lemma first_some_append_None:
  "(\<And>x. x \<in> set xs \<Longrightarrow> x = None) \<Longrightarrow> first_some (xs @ ys) = first_some ys"
proof (induction xs)
  case Nil
  show ?case by simp
next
  case (Cons a xs)
  have "a = None"
    by (rule Cons.prems) simp
  moreover have "first_some (xs @ ys) = first_some ys"
    by (rule Cons.IH) (simp add: Cons.prems)
  ultimately show ?case
    by simp
qed

lemma rx_literal:
  "rx_run (map (\<lambda>a. One (lit a)) w @ items) s cap =
     (if take (length w) s = w then rx_run items (drop (length w) s) cap else None)"
proof (induction w arbitrary: s)
  case Nil
  show ?case by simp
next
  case (Cons a w)
  show ?case
  proof (cases s)
    case Nil
    then show ?thesis by simp
  next
    case (Cons c r)
    have "rx_run (map (\<lambda>a. One (lit a)) (a # w) @ items) (c # r) cap =
        (if lit a c then rx_run (map (\<lambda>a. One (lit a)) w @ items) r cap else None)"
      by simp
    also have "\<dots> = (if c = a then
        (if take (length w) r = w then rx_run items (drop (length w) r) cap else None) else None)"
      by (simp only: Cons.IH lit_def)
    finally show ?thesis
      by (auto simp add: Cons)
  qed
qed

lemma rx_delimited:
  "rx_run (map (\<lambda>a. One (lit a)) pre
           @ Rep (not_chr a) 1 Greedy True # map (\<lambda>a. One (lit a)) (a # post)) s [] = Some cap
   \<longleftrightarrow> (\<exists>rest. s = pre @ cap @ a # post @ rest \<and> cap \<noteq> [] \<and> a \<notin> set cap)"
proof -
  let ?P = "not_chr a"
  have disjoint: "\<And>c. ?P c \<Longrightarrow> \<not> lit a c"
    by (simp add: not_chr_def lit_def)
  have run: "rx_run (map (\<lambda>a. One (lit a)) pre
           @ Rep ?P 1 Greedy True # map (\<lambda>a. One (lit a)) (a # post)) s [] =
      (if take (length pre) s = pre \<and> 1 \<le> length (takeWhile ?P (drop (length pre) s))
          \<and> take (Suc (length post)) (dropWhile ?P (drop (length pre) s)) = a # post
       then Some (takeWhile ?P (drop (length pre) s)) else None)"
  proof -
    have tail: "rx_run (One (lit a) # map (\<lambda>a. One (lit a)) post) t c =
        (if take (Suc (length post)) t = a # post then Some c else None)" for t c
      using rx_literal [of "a # post" "[]" t c] by (simp del: rx_run.simps(2))
    have "rx_run (map (\<lambda>a. One (lit a)) pre
           @ Rep ?P 1 Greedy True # map (\<lambda>a. One (lit a)) (a # post)) s [] =
        (if take (length pre) s = pre
         then rx_run (Rep ?P 1 Greedy True # One (lit a) # map (\<lambda>a. One (lit a)) post)
                (drop (length pre) s) []
         else None)"
      by (simp only: rx_literal list.map)
    also have "rx_run (Rep ?P 1 Greedy True # One (lit a) # map (\<lambda>a. One (lit a)) post)
                (drop (length pre) s) [] =
        (if 1 \<le> length (takeWhile ?P (drop (length pre) s))
         then rx_run (One (lit a) # map (\<lambda>a. One (lit a)) post)
                (dropWhile ?P (drop (length pre) s))
                (if True then takeWhile ?P (drop (length pre) s) else [])
         else None)"
      by (rule rx_greedy_then_other [OF disjoint])
    finally show ?thesis
      by (simp only: tail if_True) (simp del: rx_run.simps)
  qed
  show ?thesis
  proof
    assume "rx_run (map (\<lambda>a. One (lit a)) pre
           @ Rep ?P 1 Greedy True # map (\<lambda>a. One (lit a)) (a # post)) s [] = Some cap"
    then have pre: "take (length pre) s = pre"
      and len: "1 \<le> length (takeWhile ?P (drop (length pre) s))"
      and post: "take (Suc (length post)) (dropWhile ?P (drop (length pre) s)) = a # post"
      and cap: "cap = takeWhile ?P (drop (length pre) s)"
      unfolding run by (simp_all split: if_splits)
    let ?r = "drop (length pre) s"
    have "s = pre @ ?r"
      using append_take_drop_id [of "length pre" s] by (simp add: pre)
    moreover have "?r = cap @ dropWhile ?P ?r"
      by (simp add: cap)
    moreover have "dropWhile ?P ?r = (a # post) @ drop (Suc (length post)) (dropWhile ?P ?r)"
      using append_take_drop_id [of "Suc (length post)" "dropWhile ?P ?r"] by (simp only: post)
    ultimately have "s = pre @ cap @ a # post @ drop (Suc (length post)) (dropWhile ?P ?r)"
      by (metis append_Cons)
    moreover from len have "cap \<noteq> []"
      by (auto simp add: cap)
    moreover have "a \<notin> set cap"
      using set_takeWhileD [of a ?P ?r] by (auto simp add: cap not_chr_def)
    ultimately show "\<exists>rest. s = pre @ cap @ a # post @ rest \<and> cap \<noteq> [] \<and> a \<notin> set cap"
      by blast
  next
    assume "\<exists>rest. s = pre @ cap @ a # post @ rest \<and> cap \<noteq> [] \<and> a \<notin> set cap"
    then obtain rest where s: "s = pre @ cap @ a # post @ rest" and ne: "cap \<noteq> []"
      and a: "a \<notin> set cap"
      by blast
    from a have all: "\<And>x. x \<in> set cap \<Longrightarrow> ?P x"
      by (auto simp add: not_chr_def)
    have tw: "takeWhile ?P (cap @ a # post @ rest) = cap"
      by (simp add: takeWhile_append2 [OF all] not_chr_def)
    have dw: "dropWhile ?P (cap @ a # post @ rest) = a # post @ rest"
      by (simp add: dropWhile_append2 [OF all] not_chr_def)
    from ne have "1 \<le> length cap"
      by (cases cap) simp_all
    then show "rx_run (map (\<lambda>a. One (lit a)) pre
           @ Rep ?P 1 Greedy True # map (\<lambda>a. One (lit a)) (a # post)) s [] = Some cap"
      unfolding run by (simp add: s tw dw)
  qed
qed

lemma rx_bold_iff:
  "rx_run p_bold s [] = Some cap \<longleftrightarrow>
     (\<exists>rest. s = ''**'' @ cap @ ''**'' @ rest \<and> cap \<noteq> [] \<and> CHR ''*'' \<notin> set cap)"
  using rx_delimited [of "''**''" "CHR ''*''" "''*''" s cap] by (simp add: p_bold_def)

lemma rx_quoted_iff:
  "rx_run p_quoted s [] = Some cap \<longleftrightarrow>
     (\<exists>rest. s = CHR 0x22 # cap @ CHR 0x22 # rest \<and> cap \<noteq> [] \<and> CHR 0x22 \<notin> set cap)"
  using rx_delimited [of "[CHR 0x22]" "CHR 0x22" "[]" s cap] by (simp add: p_quoted_def)

lemma rx_lazy_line:
  "rx_run [Rep dot 1 Lazy True, NlOrEnd] s cap0 =
     (if takeWhile dot s \<noteq> [] \<and> (dropWhile dot s = [] \<or> hd (dropWhile dot s) = CHR 0x0A)
      then Some (takeWhile dot s) else None)"
proof (cases "1 \<le> length (takeWhile dot s)")
  case False
  then have "takeWhile dot s = []"
    by (cases "takeWhile dot s") simp_all
  then show ?thesis
    by simp
next
  case True
  let ?mx = "length (takeWhile dot s)"
  let ?f = "\<lambda>k. rx_run [NlOrEnd] (drop k s) (take k s)"
  have shorter: "?f k = None" if "k < ?mx" for k
  proof -
    from drop_takeWhile_head [OF that] obtain c r where "drop k s = c # r" "dot c"
      by blast
    then show ?thesis
      by (simp add: dot_def)
  qed
  have top: "drop ?mx s = dropWhile dot s" "take ?mx s = takeWhile dot s"
    by (rule dropWhile_eq_drop [symmetric], rule takeWhile_eq_take [symmetric])
  have "rx_run [Rep dot 1 Lazy True, NlOrEnd] s cap0 = first_some (map ?f [1..<Suc ?mx])"
    by (simp only: rx_run.simps(3) Let_def quant.case if_True)
  also have "[1..<Suc ?mx] = [1..<?mx] @ [?mx]"
    using True by simp
  also have "first_some (map ?f ([1..<?mx] @ [?mx])) = first_some (map ?f [1..<?mx] @ [?f ?mx])"
    by (simp only: map_append list.map)
  also have "\<dots> = first_some [?f ?mx]"
    by (rule first_some_append_None) (auto simp add: shorter simp del: rx_run.simps)
  also have "\<dots> = ?f ?mx"
    by (cases "?f ?mx") simp_all
  finally have eq: "rx_run [Rep dot 1 Lazy True, NlOrEnd] s cap0
      = rx_run [NlOrEnd] (dropWhile dot s) (takeWhile dot s)"
    by (simp only: top)
  from True have ne: "takeWhile dot s \<noteq> []"
    by auto
  show ?thesis
  proof (cases "dropWhile dot s")
    case Nil
    show ?thesis
      unfolding eq Nil using ne by simp
  next
    case (Cons c r)
    show ?thesis
      unfolding eq Cons using ne by simp
  qed
qed

lemma extract_bold_general:
  assumes "body \<noteq> []" and "CHR ''*'' \<notin> set body"
    and "trim (''**'' @ body @ ''**'' @ rest) = ''**'' @ body @ ''**'' @ rest"
  shows "extractTitleFromGreeting (''**'' @ body @ ''**'' @ rest) = Some (trim body)"
proof -
  from assms(1,2) have "rx_run p_bold (''**'' @ body @ ''**'' @ rest) [] = Some body"
    unfolding rx_bold_iff by blast
  then show ?thesis
    by (simp add: extractTitleFromGreeting_def patterns_def assms(3) del: append.simps)
qed

section \<open>Title extraction\<close>

lemma first_match_patterns_Nil: "first_match patterns [] = None"
  by (simp add: patterns_def p_bold_def p_heading_def p_quoted_def p_episode_def)

lemma extract_bold_example:
  \<open>extractTitleFromGreeting ''**Coffee Shop Confession**\<newline>Hi there'' = Some ''Coffee Shop Confession''\<close>
  by (simp add: title_eval)

lemma extract_heading_example:
  \<open>extractTitleFromGreeting ''# Pilot\<newline>Welcome'' = Some ''Pilot''\<close>
  by (simp add: title_eval)

lemma extract_quoted_example:
  \<open>extractTitleFromGreeting ''"Runaway"\<newline>Scene.'' = Some ''Runaway''\<close>
  by (simp add: title_eval)

lemma extract_episode_example:
  \<open>extractTitleFromGreeting ''Episode 3: The Reveal'' = Some ''The Reveal''\<close>
  by (simp add: title_eval)

lemma no_pattern_short:
  \<open>first_match patterns (trim ''Just a short line of text'') = None\<close>
  by (simp add: title_eval)

lemma no_pattern_long:
  \<open>first_match patterns (trim ''This opening line runs on well past the fifty character limit'') = None\<close>
  by (simp add: title_eval)

text \<open>
  C5, as the claim states it, fails on a greeting that is blank: no pattern matches it and
  its first line has at most 50 characters (none), but the extractor reports absence, not
  the empty title, because of the guard \<open>firstLine && ...\<close>.
\<close>

theorem extractTitle_blank_counterexample:
  \<open>first_match patterns (trim '' '') = None
   \<and> length (first_line (trim '' '')) \<le> 50
   \<and> extractTitleFromGreeting '' '' = None
   \<and> extractTitleFromGreeting '' '' \<noteq>
       Some (trim (filter (\<lambda>c. c \<notin> {CHR ''*'', CHR ''#'', CHR 0x22}) (first_line (trim '' ''))))\<close>
  by (simp add: title_eval)

text \<open>
  C5, amended. The four pattern examples give the trimmed captures. A greeting that
  matches no pattern and whose first line (of the trimmed text) is not empty and has at
  most 50 characters gives that line without its \<open>*\<close>, \<open>#\<close> and \<open>"\<close>, trimmed; one whose
  first line has more than 50 characters gives absence; and so does a greeting that is
  empty once trimmed.
\<close>

theorem extractTitle_cases:
  \<open>extractTitleFromGreeting ''**Coffee Shop Confession**\<newline>Hi there'' = Some ''Coffee Shop Confession''
   \<and> extractTitleFromGreeting ''# Pilot\<newline>Welcome'' = Some ''Pilot''
   \<and> extractTitleFromGreeting ''"Runaway"\<newline>Scene.'' = Some ''Runaway''
   \<and> extractTitleFromGreeting ''Episode 3: The Reveal'' = Some ''The Reveal''
   \<and> (first_match patterns (trim g1) = None \<and> first_line (trim g1) \<noteq> []
        \<and> length (first_line (trim g1)) \<le> 50
      \<longrightarrow> extractTitleFromGreeting g1 =
            Some (trim (filter (\<lambda>c. c \<notin> {CHR ''*'', CHR ''#'', CHR 0x22}) (first_line (trim g1)))))
   \<and> (first_match patterns (trim g2) = None \<and> length (first_line (trim g2)) > 50
      \<longrightarrow> extractTitleFromGreeting g2 = None)
   \<and> (trim g3 = [] \<longrightarrow> extractTitleFromGreeting g3 = None)\<close>
proof -
  have short: "extractTitleFromGreeting g1 =
      Some (trim (filter (\<lambda>c. c \<notin> {CHR ''*'', CHR ''#'', CHR 0x22}) (first_line (trim g1))))"
    if "first_match patterns (trim g1) = None" "first_line (trim g1) \<noteq> []"
       "length (first_line (trim g1)) \<le> 50"
  proof -
    have "(\<lambda>c. \<not> is_marker c) = (\<lambda>c. c \<notin> {CHR ''*'', CHR ''#'', CHR 0x22})"
      by (auto simp: is_marker_def)
    with that show ?thesis
      by (simp add: extractTitleFromGreeting_def Let_def)
  qed
  have long: "extractTitleFromGreeting g2 = None"
    if "first_match patterns (trim g2) = None" "length (first_line (trim g2)) > 50"
    using that by (simp add: extractTitleFromGreeting_def Let_def)
  have blank: "extractTitleFromGreeting g3 = None" if "trim g3 = []"
    using that by (simp add: extractTitleFromGreeting_def first_match_patterns_Nil first_line_def)
  show ?thesis
    using extract_bold_example extract_heading_example extract_quoted_example
      extract_episode_example short long blank
    by blast
qed

theorem extractTitle_cases_witness:
  \<open>extractTitleFromGreeting ''Just a short line of text'' = Some ''Just a short line of text''
   \<and> extractTitleFromGreeting ''This opening line runs on well past the fifty character limit'' = None
   \<and> extractTitleFromGreeting '' '' = None\<close>
proof -
  have a: "first_line (trim ''Just a short line of text'') = ''Just a short line of text''"
    by (simp add: trim_def is_white_space_def first_line_def)
  have b: "length (first_line (trim ''This opening line runs on well past the fifty character limit'')) > 50"
    by (simp add: trim_def is_white_space_def first_line_def)
  have c: "trim '' '' = []"
    by (simp add: trim_def is_white_space_def)
  have d: "trim (filter (\<lambda>c. c \<notin> {CHR ''*'', CHR ''#'', CHR 0x22}) ''Just a short line of text'')
      = ''Just a short line of text''"
    by (simp add: trim_def is_white_space_def)
  show ?thesis
    using extractTitle_cases [of "''Just a short line of text''"
        "''This opening line runs on well past the fifty character limit''" "'' ''"]
      no_pattern_short no_pattern_long a b c d
    by simp
qed

section \<open>Construction\<close>

lemma accepted_pilot_data: "accepted pilot_data"
  by (simp add: accepted_def pilot_data_def pilot_character_def)

text \<open>
  C3. Whatever the construction input holds, persisted chat and turn snapshots included,
  the stage that the constructor returns starts at episode 0 with the high-water mark 0
  and the completed flag false; and the constructor returns a stage on every accepted
  input, whatever the snapshots.
\<close>

theorem constructor_initial_navigation:
  "(accepted d \<longrightarrow>
      (\<exists>st. constructor clk (d\<lparr>InitialData.chatState := cs, InitialData.messageState := ms\<rparr>) = Inr st))
   \<and> (\<forall>st. constructor clk (d\<lparr>InitialData.chatState := cs, InitialData.messageState := ms\<rparr>) = Inr st
        \<longrightarrow> currentEpisode st = 0 \<and> highestEpisodeReached st = 0 \<and> completed st = False)"
proof -
  have "accepted (d\<lparr>InitialData.chatState := cs, InitialData.messageState := ms\<rparr>) = accepted d"
    by (simp add: accepted_def)
  then have "accepted d \<longrightarrow>
      (\<exists>st. constructor clk (d\<lparr>InitialData.chatState := cs, InitialData.messageState := ms\<rparr>) = Inr st)"
    by (simp add: constructor_accepted)
  then show ?thesis
    by (auto dest: constructor_start)
qed

theorem constructor_initial_navigation_witness:
  "accepted pilot_data
   \<and> map_sum id currentEpisode (constructor tick (pilot_data
      \<lparr>InitialData.chatState :=
         Some \<lparr>ChatStateType.highestEpisodeReached = 2, ChatStateType.completed = True\<rparr>,
       InitialData.messageState := Some (snapshot (Some 2))\<rparr>)) = Inr 0
   \<and> map_sum id highestEpisodeReached (constructor tick (pilot_data
      \<lparr>InitialData.chatState :=
         Some \<lparr>ChatStateType.highestEpisodeReached = 2, ChatStateType.completed = True\<rparr>,
       InitialData.messageState := Some (snapshot (Some 2))\<rparr>)) = Inr 0
   \<and> map_sum id completed (constructor tick (pilot_data
      \<lparr>InitialData.chatState :=
         Some \<lparr>ChatStateType.highestEpisodeReached = 2, ChatStateType.completed = True\<rparr>,
       InitialData.messageState := Some (snapshot (Some 2))\<rparr>)) = Inr False"
proof -
  let ?d = "pilot_data
      \<lparr>InitialData.chatState :=
         Some \<lparr>ChatStateType.highestEpisodeReached = 2, ChatStateType.completed = True\<rparr>,
       InitialData.messageState := Some (snapshot (Some 2))\<rparr>"
  from constructor_initial_navigation [where d = pilot_data and clk = tick
      and cs = "Some \<lparr>ChatStateType.highestEpisodeReached = 2, ChatStateType.completed = True\<rparr>"
      and ms = "Some (snapshot (Some 2))"] accepted_pilot_data
  obtain st where "constructor tick ?d = Inr st"
    and "currentEpisode st = 0 \<and> highestEpisodeReached st = 0 \<and> completed st = False"
    by blast
  with accepted_pilot_data show ?thesis
    by simp
qed

text \<open>
  C4, as the claim states it, fails in two ways. A first greeting that opens with a rule
  of three asterisks has the empty string as its extracted title, which is not absence,
  and the list of titles holds \<open>Episode 1\<close> for it. And a character whose first greeting
  is the empty string gets no entry for it: with one alternate greeting the list has one
  title, not two, and entry 0 is the title of the alternate greeting.
\<close>

theorem catalog_counterexample:
  "extractTitleFromGreeting ''***\<newline>It was a dark night'' = Some []
   \<and> map_sum id episodeTitles (constructor tick
        \<lparr>characters = Arr [Some \<lparr>name = Some ''Ann'',
                                  first_mes = Str ''***\<newline>It was a dark night'',
                                  alternate_greetings = Arr []\<rparr>],
         InitialData.config = None, InitialData.initState = None,
         InitialData.chatState = None, InitialData.messageState = None\<rparr>) = Inr [''Episode 1'']
   \<and> map_sum id episodeTitles (constructor tick
        \<lparr>characters = Arr [Some \<lparr>name = Some ''Ann'', first_mes = Str [],
                                  alternate_greetings = Arr [Str ''**Twist**\<newline>A turn'']\<rparr>],
         InitialData.config = None, InitialData.initState = None,
         InitialData.chatState = None, InitialData.messageState = None\<rparr>) = Inr [''Twist'']"
  by (simp add: constructor_def initial_fields_def Let_def extractEpisodeTitles_def
        extract_rule_line extract_twist)

text \<open>
  C4, amended. For a character whose first greeting is a string that is not empty and
  whose alternate greetings are strings, the constructor returns a stage whose list of
  titles has one entry for the first greeting and one for each alternate greeting, in
  their order (none when the alternate greetings are missing). Entry 0 is the extracted
  title of the first greeting, or \<open>Episode 1\<close> when the extractor reports absence or the
  empty string; the entry of the alternate greeting at position \<open>i\<close> is its extracted
  title, or \<open>Episode\<close> followed by \<open>i + 2\<close> when the extractor reports absence or the
  empty string.
\<close>

theorem catalog_of_constructor:
  assumes "characters d = Arr (Some ch # rest)" and "first_mes ch = Str g" and "g \<noteq> []"
    and "map Str gs = (case alternate_greetings ch of Arr xs \<Rightarrow> xs | _ \<Rightarrow> [])"
  shows "\<exists>st. constructor clk d = Inr st
    \<and> length (episodeTitles st) = 1 + length gs
    \<and> episodeTitles st ! 0 =
        (case extractTitleFromGreeting g of
           None \<Rightarrow> ''Episode 1''
         | Some t \<Rightarrow> if t = [] then ''Episode 1'' else t)
    \<and> (\<forall>i<length gs. episodeTitles st ! (i + 1) =
        (case extractTitleFromGreeting (gs ! i) of
           None \<Rightarrow> ''Episode '' @ show_int (int i + 2)
         | Some t \<Rightarrow> if t = [] then ''Episode '' @ show_int (int i + 2) else t))"
proof -
  let ?alt = "\<lambda>(index, greeting).
      or_str (extractTitleFromGreeting greeting) (''Episode '' @ show_int (int index + 2))"
  let ?titles = "or_str (extractTitleFromGreeting g) ''Episode 1'' # map ?alt (enumerate 0 gs)"
  have extracted: "extractEpisodeTitles ch = Inr ?titles"
  proof (cases "alternate_greetings ch")
    case (Arr xs)
    with assms(4) have "xs = map Str gs"
      by simp
    with Arr assms(2,3) show ?thesis
      by (simp add: extractEpisodeTitles_def forEach_titles_strings)
  next
    case Absent
    with assms(4) have "gs = []"
      by simp
    with Absent assms(2,3) show ?thesis
      by (simp add: extractEpisodeTitles_def)
  next
    case NonArray
    with assms(4) have "gs = []"
      by simp
    with NonArray assms(2,3) show ?thesis
      by (simp add: extractEpisodeTitles_def)
  qed
  with assms(1) obtain st where st: "constructor clk d = Inr st"
    and titles: "episodeTitles st = ?titles"
    by (simp add: constructor_def Let_def)
  have len: "length (episodeTitles st) = 1 + length gs"
    by (simp add: titles)
  have head: "episodeTitles st ! 0 =
        (case extractTitleFromGreeting g of
           None \<Rightarrow> ''Episode 1''
         | Some t \<Rightarrow> if t = [] then ''Episode 1'' else t)"
    by (simp add: titles or_str_case)
  have tail: "episodeTitles st ! (i + 1) =
        (case extractTitleFromGreeting (gs ! i) of
           None \<Rightarrow> ''Episode '' @ show_int (int i + 2)
         | Some t \<Rightarrow> if t = [] then ''Episode '' @ show_int (int i + 2) else t)"
    if "i < length gs" for i
    using that by (simp add: titles nth_enumerate_eq or_str_case split: option.split)
  from st len head tail show ?thesis
    by blast
qed

theorem catalog_of_constructor_witness:
  "length (episodeTitles pilot_stage) = 3
   \<and> episodeTitles pilot_stage ! 0 = ''Pilot''
   \<and> episodeTitles pilot_stage ! 1 = ''Twist''
   \<and> episodeTitles pilot_stage ! 2 = ''Goodbye for now''"
proof -
  have ch: "characters pilot_data = Arr (Some pilot_character # [])"
    by (simp add: pilot_data_def)
  have g: "first_mes pilot_character = Str ''**Pilot**\<newline>Hello''"
    by (simp add: pilot_character_def)
  have ne: "''**Pilot**\<newline>Hello'' \<noteq> []"
    by simp
  have gs: "map Str [''**Twist**\<newline>A turn'', ''Goodbye for now'']
      = (case alternate_greetings pilot_character of Arr xs \<Rightarrow> xs | _ \<Rightarrow> [])"
    by (simp add: pilot_character_def)
  from catalog_of_constructor [OF ch g ne gs, of tick]
  have catalog: "length (episodeTitles pilot_stage) = 1 + length [''**Twist**\<newline>A turn'', ''Goodbye for now'']
    \<and> episodeTitles pilot_stage ! 0 =
        (case extractTitleFromGreeting ''**Pilot**\<newline>Hello'' of
           None \<Rightarrow> ''Episode 1''
         | Some t \<Rightarrow> if t = [] then ''Episode 1'' else t)
    \<and> (\<forall>i<length [''**Twist**\<newline>A turn'', ''Goodbye for now'']. episodeTitles pilot_stage ! (i + 1) =
        (case extractTitleFromGreeting ([''**Twist**\<newline>A turn'', ''Goodbye for now''] ! i) of
           None \<Rightarrow> ''Episode '' @ show_int (int i + 2)
         | Some t \<Rightarrow> if t = [] then ''Episode '' @ show_int (int i + 2) else t))"
    unfolding pilot_constructed by blast
  from catalog have len: "length (episodeTitles pilot_stage) = 3"
    by simp
  from catalog have head: "episodeTitles pilot_stage ! 0 = ''Pilot''"
    by (simp add: extract_pilot)
  from catalog have tail: "episodeTitles pilot_stage ! (i + 1) =
        (case extractTitleFromGreeting ([''**Twist**\<newline>A turn'', ''Goodbye for now''] ! i) of
           None \<Rightarrow> ''Episode '' @ show_int (int i + 2)
         | Some t \<Rightarrow> if t = [] then ''Episode '' @ show_int (int i + 2) else t)"
    if "i < 2" for i
    using that by simp
  from tail [of 0] have second: "episodeTitles pilot_stage ! 1 = ''Twist''"
    by (simp add: extract_twist)
  from tail [of 1] have third: "episodeTitles pilot_stage ! 2 = ''Goodbye for now''"
    by (simp add: extract_goodbye numeral_2_eq_2)
  from len head second third show ?thesis
    by simp
qed

text \<open>
  C9, as the claim states it, fails. The constructor raises \<open>TypeError\<close> when the host
  sends \<open>null\<close> for the character, and when an alternate greeting is \<open>null\<close>. For a
  character without greetings the list of titles is empty, and when the host sends no
  character the name of the stage is empty, not the placeholder.
\<close>

theorem constructor_raises_counterexample:
  "constructor tick null_character_data = Inl TypeError
   \<and> constructor tick null_greeting_data = Inl TypeError
   \<and> map_sum id episodeTitles (constructor tick bare_data) = Inr []
   \<and> map_sum id characterName (constructor tick empty_data) = Inr []"
  by (simp add: constructor_def Let_def null_character_data_def null_greeting_data_def
        bare_data_def empty_data_def extractEpisodeTitles_def initial_fields_def)

text \<open>
  C9, amended. The constructor raises \<open>TypeError\<close> exactly when the first character is
  \<open>null\<close> or \<open>undefined\<close>, or its first greeting is a truthy value that is no string, or
  one of its alternate greetings is no string; on every other input it returns a stage.
  When the alternate greetings of the first character are missing or no array, the
  stage has one episode, and its list of titles holds the title of the first greeting, or
  nothing when that greeting is missing or empty; in that case the title of the one
  episode is made up when it is looked up, as the context message and the state message
  of the first turn show. When the host sends no character at all the stage has one
  episode as well, no title and the empty name. When the name of a character is missing
  or empty the stage is named \<open>Character\<close>.
\<close>

theorem constructor_degrades:
  "((\<exists>st. constructor clk d = Inr st) \<longleftrightarrow> accepted d)
   \<and> (\<not> accepted d \<longrightarrow> constructor clk d = Inl TypeError)
   \<and> (characters d = Arr (Some ch # rest)
      \<and> (alternate_greetings ch = Absent \<or> alternate_greetings ch = NonArray)
      \<and> first_mes ch \<noteq> Truthy
    \<longrightarrow> (\<exists>st. constructor clk d = Inr st \<and> totalEpisodes st = 1
          \<and> episodeTitles st =
              (case first_mes ch of
                 Str g \<Rightarrow> if g = [] then []
                           else [case extractTitleFromGreeting g of
                                   None \<Rightarrow> ''Episode 1''
                                 | Some t \<Rightarrow> if t = [] then ''Episode 1'' else t]
               | _ \<Rightarrow> [])))
   \<and> (characters d = Arr (Some ch # rest)
      \<and> (alternate_greetings ch = Absent \<or> alternate_greetings ch = NonArray)
      \<and> (first_mes ch = Falsy \<or> first_mes ch = Str []) \<and> InitialData.config d = None
    \<longrightarrow> (\<exists>st. constructor clk d = Inr st
          \<and> StageResponse.systemMessage (fst (beforePrompt clk1 m st)) =
              Some ''[Chubflix Episode Context: Currently on Episode 1 (1/1). Maintain narrative continuity with previous episodes.]''
          \<and> StageResponse.stateMessage (fst (beforePrompt clk1 m st)) = ''Episode 1/1''))
   \<and> (characters d' = Absent \<or> characters d' = NonArray \<or> characters d' = Arr []
    \<longrightarrow> (\<exists>st. constructor clk d' = Inr st \<and> totalEpisodes st = 1 \<and> episodeTitles st = []
          \<and> characterName st = []))
   \<and> (characters d = Arr (Some ch # rest) \<and> (name ch = None \<or> name ch = Some [])
    \<longrightarrow> (\<forall>st. constructor clk d = Inr st \<longrightarrow> characterName st = ''Character''))"
proof -
  have single: "\<exists>st. constructor clk d = Inr st \<and> totalEpisodes st = 1
          \<and> episodeTitles st =
              (case first_mes ch of
                 Str g \<Rightarrow> if g = [] then []
                           else [case extractTitleFromGreeting g of
                                   None \<Rightarrow> ''Episode 1''
                                 | Some t \<Rightarrow> if t = [] then ''Episode 1'' else t]
               | _ \<Rightarrow> [])"
    if "characters d = Arr (Some ch # rest)"
      "alternate_greetings ch = Absent \<or> alternate_greetings ch = NonArray"
      "first_mes ch \<noteq> Truthy"
    using that
    by (cases "first_mes ch")
       (auto simp add: constructor_def Let_def extractEpisodeTitles_def or_str_case)
  have synth: "\<exists>st. constructor clk d = Inr st
          \<and> StageResponse.systemMessage (fst (beforePrompt clk1 m st)) =
              Some ''[Chubflix Episode Context: Currently on Episode 1 (1/1). Maintain narrative continuity with previous episodes.]''
          \<and> StageResponse.stateMessage (fst (beforePrompt clk1 m st)) = ''Episode 1/1''"
    if "characters d = Arr (Some ch # rest)"
      "alternate_greetings ch = Absent \<or> alternate_greetings ch = NonArray"
      "first_mes ch = Falsy \<or> first_mes ch = Str []" "InitialData.config d = None"
  proof -
    from that(3) have "first_mes ch \<noteq> Truthy"
      by auto
    from single [OF that(1,2) this] that(3) obtain st where st: "constructor clk d = Inr st"
      and "totalEpisodes st = 1" "episodeTitles st = []"
      by auto
    moreover have "currentEpisode st = 0"
      by (rule constructor_start [OF st])
    moreover from st that(1,4) have "config st = default_config"
      by (auto simp add: constructor_def Let_def initial_fields_def split: sum.splits)
    ultimately have "StageResponse.systemMessage (fst (beforePrompt clk1 m st)) =
              Some ''[Chubflix Episode Context: Currently on Episode 1 (1/1). Maintain narrative continuity with previous episodes.]''
          \<and> StageResponse.stateMessage (fst (beforePrompt clk1 m st)) = ''Episode 1/1''"
      by (simp add: beforePrompt_def Let_def state_message_def js_index_def show_int_def
            default_config_def)
    with st show ?thesis
      by blast
  qed
  have none: "\<exists>st. constructor clk d' = Inr st \<and> totalEpisodes st = 1 \<and> episodeTitles st = []
          \<and> characterName st = []"
    if "characters d' = Absent \<or> characters d' = NonArray \<or> characters d' = Arr []"
    using that
    by (auto simp add: constructor_def Let_def initial_fields_def split: option.split)
  have placeholder: "characterName st = ''Character''"
    if "characters d = Arr (Some ch # rest)" "name ch = None \<or> name ch = Some []"
      "constructor clk d = Inr st" for st
    using that by (auto simp add: constructor_def Let_def split: sum.splits)
  from single synth none placeholder constructor_accepted [of clk d]
    constructor_rejected [of d clk]
  show ?thesis
    by blast
qed

theorem constructor_degrades_witness:
  "accepted bare_data
   \<and> map_sum id totalEpisodes (constructor tick bare_data) = Inr 1
   \<and> map_sum id characterName (constructor tick bare_data) = Inr ''Character''
   \<and> map_sum id (\<lambda>st. StageResponse.systemMessage (fst (beforePrompt tick ''hi'' st)))
        (constructor tick bare_data) =
       Inr (Some ''[Chubflix Episode Context: Currently on Episode 1 (1/1). Maintain narrative continuity with previous episodes.]'')
   \<and> map_sum id totalEpisodes (constructor tick empty_data) = Inr 1
   \<and> \<not> accepted null_character_data
   \<and> constructor tick null_character_data = Inl TypeError"
proof -
  let ?ch = "\<lparr>name = None, first_mes = Falsy, alternate_greetings = NonArray\<rparr>"
  have bare: "characters bare_data = Arr (Some ?ch # [])" "InitialData.config bare_data = None"
    "accepted bare_data"
    by (simp_all add: bare_data_def accepted_def)
  have empty: "characters empty_data = Absent"
    by (simp add: empty_data_def)
  have null: "\<not> accepted null_character_data"
    by (simp add: null_character_data_def accepted_def)
  note facts = constructor_degrades [of tick bare_data ?ch "[]" tick "''hi''" empty_data]
  from facts bare obtain st where st: "constructor tick bare_data = Inr st"
    and "totalEpisodes st = 1"
    by auto
  from facts bare obtain st' where st': "constructor tick bare_data = Inr st'"
    and "StageResponse.systemMessage (fst (beforePrompt tick ''hi'' st')) =
       Some ''[Chubflix Episode Context: Currently on Episode 1 (1/1). Maintain narrative continuity with previous episodes.]''"
    by auto
  from facts bare st have "characterName st = ''Character''"
    by auto
  from facts empty obtain se where "constructor tick empty_data = Inr se" "totalEpisodes se = 1"
    by auto
  from constructor_degrades [of tick null_character_data] null
  have "constructor tick null_character_data = Inl TypeError"
    by blast
  show ?thesis
    using bare(3) null st st' \<open>totalEpisodes st = 1\<close> \<open>characterName st = ''Character''\<close>
      \<open>StageResponse.systemMessage (fst (beforePrompt tick ''hi'' st')) =
       Some ''[Chubflix Episode Context: Currently on Episode 1 (1/1). Maintain narrative continuity with previous episodes.]''\<close>
      \<open>constructor tick empty_data = Inr se\<close> \<open>totalEpisodes se = 1\<close>
      \<open>constructor tick null_character_data = Inl TypeError\<close>
    by simp
qed

section \<open>Navigation\<close>

text \<open>
  C7. From the stage that the constructor returns, whatever sequence of advance, retreat
  and turn-start calls is made, the current episode stays between 0 and the number of
  episodes minus one, and the high-water mark after a part of the sequence is at most the
  high-water mark after the whole of it. Advancing at the last episode and retreating at
  episode 0 leave the stage as it is. The number of episodes is the length of the list of
  titles whenever the character has a first greeting that is not empty. The constructor
  returns a stage on every accepted input.
\<close>

theorem navigation_bounds_and_high_water:
  assumes "list_all is_navigation (xs @ ys)"
  shows "(accepted d \<longrightarrow> (\<exists>s0. constructor clk d = Inr s0))
    \<and> (\<forall>s0. constructor clk d = Inr s0 \<longrightarrow>
          0 \<le> currentEpisode (run xs s0)
          \<and> currentEpisode (run xs s0) \<le> totalEpisodes s0 - 1
          \<and> highestEpisodeReached (run xs s0) \<le> highestEpisodeReached (run (xs @ ys) s0)
          \<and> (characters d = Arr (Some ch # rest) \<and> first_mes ch = Str g \<and> g \<noteq> []
             \<longrightarrow> totalEpisodes s0 = int (length (episodeTitles s0))))
    \<and> (currentEpisode st = totalEpisodes st - 1 \<longrightarrow> goToNextEpisode clk1 st = st)
    \<and> (currentEpisode st = 0 \<longrightarrow> goToPreviousEpisode clk2 st = st)"
proof -
  from assms have nav: "list_all is_navigation xs"
    by simp
  have returns: "accepted d \<longrightarrow> (\<exists>s0. constructor clk d = Inr s0)"
    by (simp add: constructor_accepted)
  have walk: "0 \<le> currentEpisode (run xs s0)
          \<and> currentEpisode (run xs s0) \<le> totalEpisodes s0 - 1
          \<and> highestEpisodeReached (run xs s0) \<le> highestEpisodeReached (run (xs @ ys) s0)
          \<and> (characters d = Arr (Some ch # rest) \<and> first_mes ch = Str g \<and> g \<noteq> []
             \<longrightarrow> totalEpisodes s0 = int (length (episodeTitles s0)))"
    if s0: "constructor clk d = Inr s0" for s0
  proof -
    have start: "0 \<le> currentEpisode s0" "currentEpisode s0 \<le> totalEpisodes s0 - 1"
      using constructor_start [OF s0] by simp_all
    have bounds: "0 \<le> currentEpisode (run xs s0)
        \<and> currentEpisode (run xs s0) \<le> totalEpisodes s0 - 1"
      by (rule run_bounds [OF nav start])
    have mono: "highestEpisodeReached (run xs s0) \<le> highestEpisodeReached (run (xs @ ys) s0)"
      by (simp add: run_append run_highest)
    have catalog: "characters d = Arr (Some ch # rest) \<and> first_mes ch = Str g \<and> g \<noteq> []
         \<longrightarrow> totalEpisodes s0 = int (length (episodeTitles s0))"
      using constructor_titles_length [OF s0, of ch rest g] by blast
    from bounds mono catalog show ?thesis
      by blast
  qed
  have last: "currentEpisode st = totalEpisodes st - 1 \<longrightarrow> goToNextEpisode clk1 st = st"
    by (simp add: goToNextEpisode_def)
  have first: "currentEpisode st = 0 \<longrightarrow> goToPreviousEpisode clk2 st = st"
    by (simp add: goToPreviousEpisode_def)
  from returns walk last first show ?thesis
    by blast
qed

theorem navigation_bounds_and_high_water_witness:
  "list_all is_navigation
     ([NextEpisode tick, NextEpisode tick, NextEpisode tick] @ [PreviousEpisode tick, BeforePrompt tick ''hi''])
   \<and> accepted pilot_data
   \<and> constructor tick pilot_data = Inr pilot_stage
   \<and> 0 \<le> currentEpisode (run [NextEpisode tick, NextEpisode tick, NextEpisode tick] pilot_stage)
   \<and> currentEpisode (run [NextEpisode tick, NextEpisode tick, NextEpisode tick] pilot_stage) \<le> 2
   \<and> highestEpisodeReached (run [NextEpisode tick, NextEpisode tick, NextEpisode tick] pilot_stage)
       \<le> highestEpisodeReached
            (run ([NextEpisode tick, NextEpisode tick, NextEpisode tick]
                  @ [PreviousEpisode tick, BeforePrompt tick ''hi'']) pilot_stage)
   \<and> goToNextEpisode tick (run [NextEpisode tick, NextEpisode tick] pilot_stage)
       = run [NextEpisode tick, NextEpisode tick] pilot_stage
   \<and> goToPreviousEpisode tick pilot_stage = pilot_stage
   \<and> totalEpisodes pilot_stage = int (length (episodeTitles pilot_stage))"
proof -
  have nav: "list_all is_navigation
     ([NextEpisode tick, NextEpisode tick, NextEpisode tick] @ [PreviousEpisode tick, BeforePrompt tick ''hi''])"
    by simp
  have ch: "characters pilot_data = Arr (Some pilot_character # [])"
    "first_mes pilot_character = Str ''**Pilot**\<newline>Hello''"
    by (simp_all add: pilot_data_def pilot_character_def)
  have total: "totalEpisodes pilot_stage - 1 = 2"
    by (simp add: pilot_stage_fields)
  have last: "currentEpisode (run [NextEpisode tick, NextEpisode tick] pilot_stage)
      = totalEpisodes (run [NextEpisode tick, NextEpisode tick] pilot_stage) - 1"
    by (simp add: goToNextEpisode_nav pilot_stage_fields)
  have first: "currentEpisode pilot_stage = 0"
    by (rule pilot_stage_fields)
  from navigation_bounds_and_high_water [OF nav,
      of pilot_data tick pilot_character "[]" "''**Pilot**\<newline>Hello''"
        "run [NextEpisode tick, NextEpisode tick] pilot_stage" tick tick]
    navigation_bounds_and_high_water [OF nav,
      of pilot_data tick pilot_character "[]" "''**Pilot**\<newline>Hello''" pilot_stage tick tick]
    nav total last first ch accepted_pilot_data pilot_constructed
  show ?thesis
    by simp
qed

text \<open>
  C8. A restore call that carries a turn snapshot sets the current episode to the index
  of the snapshot, whatever it is; a snapshot without a usable index sets it to 0. The
  high-water mark and the completed flag stay as they are.
\<close>

theorem setState_unchecked:
  "currentEpisode (setState clk (Some ms) st)
     = (case MessageStateType.currentEpisode ms of Some i \<Rightarrow> i | None \<Rightarrow> 0)
   \<and> highestEpisodeReached (setState clk (Some ms) st) = highestEpisodeReached st
   \<and> completed (setState clk (Some ms) st) = completed st"
  by (simp add: setState_def Let_def split: option.split)

theorem setState_unchecked_witness:
  "currentEpisode (setState tick (Some (snapshot (Some 7))) pilot_stage) = 7
   \<and> currentEpisode (setState tick (Some (snapshot (Some (- 1)))) pilot_stage) = - 1
   \<and> currentEpisode (setState tick (Some (snapshot None)) (run [NextEpisode tick] pilot_stage)) = 0
   \<and> totalEpisodes pilot_stage = 3"
  using setState_unchecked [of tick "snapshot (Some 7)" pilot_stage]
    setState_unchecked [of tick "snapshot (Some (- 1))" pilot_stage]
    setState_unchecked [of tick "snapshot None" "run [NextEpisode tick] pilot_stage"]
  by (simp add: pilot_stage_fields snapshot_def)

section \<open>The turn hooks\<close>

text \<open>
  C2, as the claim states it, fails after a restore: the snapshot of episode 2 moves
  the current episode to 2 and leaves the high-water mark at 0, and the turn start
  leaves the stage's own high-water mark below the current episode.
\<close>

theorem beforePrompt_memory_counterexample:
  "highestEpisodeReached
     (snd (beforePrompt tick ''hi'' (setState tick (Some (snapshot (Some 2))) pilot_stage))) = 0
   \<and> currentEpisode
     (snd (beforePrompt tick ''hi'' (setState tick (Some (snapshot (Some 2))) pilot_stage))) = 2"
  by (simp add: setState_current snapshot_def pilot_stage_fields)

text \<open>
  C2, amended. The turn start changes neither the current episode nor the high-water
  mark of the stage; the chat snapshot it returns carries the larger of the two, which is
  at least the current episode.
\<close>

theorem beforePrompt_high_water:
  "currentEpisode (snd (beforePrompt clk m st)) = currentEpisode st
   \<and> highestEpisodeReached (snd (beforePrompt clk m st)) = highestEpisodeReached st
   \<and> ChatStateType.highestEpisodeReached (StageResponse.chatState (fst (beforePrompt clk m st)))
       = max (highestEpisodeReached st) (currentEpisode st)
   \<and> ChatStateType.highestEpisodeReached (StageResponse.chatState (fst (beforePrompt clk m st)))
       \<ge> currentEpisode st"
  by (simp add: beforePrompt_def Let_def)

theorem beforePrompt_high_water_witness:
  "ChatStateType.highestEpisodeReached (StageResponse.chatState (fst (beforePrompt tick ''hi''
       (setState tick (Some (snapshot (Some 2))) pilot_stage)))) = 2"
  using beforePrompt_high_water [of tick "''hi''"
      "setState tick (Some (snapshot (Some 2))) pilot_stage"]
  by (simp add: setState_current snapshot_def pilot_stage_fields)

text \<open>
  Two lemmas about the completed flag: once the flag of the stage is true, no sequence of
  calls makes it false again; and the turn start and \<open>load\<close> emit the flag of the stage.
\<close>

lemma stored_completed_sticky: "completed st \<Longrightarrow> completed (run cs st)"
  by (rule run_completed)

lemma sibling_emitters_completed:
  "ChatStateType.completed (StageResponse.chatState (fst (beforePrompt clk m st))) = completed st"
  "ChatStateType.completed (LoadResponse.chatState (fst (load clk st))) = completed st"
  by (simp_all add: beforePrompt_def load_def Let_def)

text \<open>
  C1. The claim asks for a completed value that, once emitted true, stays true. The code
  misses it in the turn end. On the stage of the three greetings, after two advances the
  turn end emits true; after the retreat that follows, the flag of the stage is still
  true, the turn start and \<open>load\<close> emit true, and the turn end emits false for the
  same field of the chat snapshot.
\<close>

theorem completed_emission_diverges:
  "ChatStateType.completed (StageResponse.chatState (fst (afterResponse tick ''ok''
         (run [NextEpisode tick, NextEpisode tick] pilot_stage))))
   \<and> completed (run [NextEpisode tick, NextEpisode tick, AfterResponse tick ''ok'',
                     PreviousEpisode tick] pilot_stage)
   \<and> ChatStateType.completed (StageResponse.chatState (fst (beforePrompt tick ''hi''
         (run [NextEpisode tick, NextEpisode tick, AfterResponse tick ''ok'',
               PreviousEpisode tick] pilot_stage))))
   \<and> ChatStateType.completed (LoadResponse.chatState (fst (load tick
         (run [NextEpisode tick, NextEpisode tick, AfterResponse tick ''ok'',
               PreviousEpisode tick] pilot_stage))))
   \<and> \<not> ChatStateType.completed (StageResponse.chatState (fst (afterResponse tick ''ok''
         (run [NextEpisode tick, NextEpisode tick, AfterResponse tick ''ok'',
               PreviousEpisode tick] pilot_stage))))"
  by (simp add: afterResponse_def beforePrompt_def load_def Let_def goToNextEpisode_nav
        goToPreviousEpisode_nav pilot_stage_fields)

text \<open>
  C10. The turn end leaves the current episode, the high-water mark, the completed
  flag, the number of episodes, the titles, the name and the configuration of the stage as
  they are. The response is computed from these values, and the log receives the two
  entries of the call, the oldest entries leaving it beyond 50.
\<close>

theorem afterResponse_frame_effect:
  "currentEpisode (snd (afterResponse clk m st)) = currentEpisode st
   \<and> highestEpisodeReached (snd (afterResponse clk m st)) = highestEpisodeReached st
   \<and> completed (snd (afterResponse clk m st)) = completed st
   \<and> totalEpisodes (snd (afterResponse clk m st)) = totalEpisodes st
   \<and> episodeTitles (snd (afterResponse clk m st)) = episodeTitles st
   \<and> characterName (snd (afterResponse clk m st)) = characterName st
   \<and> config (snd (afterResponse clk m st)) = config st
   \<and> fst (afterResponse clk m st) =
       \<lparr>stateMessage = ''Episode '' @ show_int (currentEpisode st + 1) @ ''/''
                          @ show_int (totalEpisodes st),
        messageState =
          \<lparr>MessageStateType.currentEpisode = Some (currentEpisode st), startedAt = clk 1,
           lastEvent = Some ''afterResponse'', lastData = Some m\<rparr>,
        chatState =
          \<lparr>ChatStateType.highestEpisodeReached = max (highestEpisodeReached st) (currentEpisode st),
           ChatStateType.completed = (totalEpisodes st - 1 \<le> currentEpisode st)\<rparr>,
        modifiedMessage = None, systemMessage = None\<rparr>
   \<and> debugLog (snd (afterResponse clk m st)) =
       (let entries = debugLog st @
          [\<lparr>timestamp = clk 0, event = ''afterResponse'',
            data = CurrentStateLog m (currentEpisode st) (totalEpisodes st)
                     (highestEpisodeReached st) (completed st)\<rparr>,
           \<lparr>timestamp = clk 2, event = ''afterResponse_response'',
            data = ResponseLog (fst (afterResponse clk m st))\<rparr>]
        in drop (length entries - 50) entries)"
proof -
  have response: "fst (afterResponse clk m st) =
       \<lparr>stateMessage = ''Episode '' @ show_int (currentEpisode st + 1) @ ''/''
                          @ show_int (totalEpisodes st),
        messageState =
          \<lparr>MessageStateType.currentEpisode = Some (currentEpisode st), startedAt = clk 1,
           lastEvent = Some ''afterResponse'', lastData = Some m\<rparr>,
        chatState =
          \<lparr>ChatStateType.highestEpisodeReached = max (highestEpisodeReached st) (currentEpisode st),
           ChatStateType.completed = (totalEpisodes st - 1 \<le> currentEpisode st)\<rparr>,
        modifiedMessage = None, systemMessage = None\<rparr>"
    by (simp add: afterResponse_def Let_def state_message_def)
  have log: "debugLog (snd (afterResponse clk m st)) =
       (let entries = debugLog st @
          [\<lparr>timestamp = clk 0, event = ''afterResponse'',
            data = CurrentStateLog m (currentEpisode st) (totalEpisodes st)
                     (highestEpisodeReached st) (completed st)\<rparr>,
           \<lparr>timestamp = clk 2, event = ''afterResponse_response'',
            data = ResponseLog (fst (afterResponse clk m st))\<rparr>]
        in drop (length entries - 50) entries)"
    unfolding afterResponse_def Let_def snd_conv fst_conv addDebugLog_twice
    by (simp add: Let_def)
  from response log show ?thesis
    by simp
qed

theorem afterResponse_frame_effect_witness:
  "currentEpisode (snd (afterResponse tick ''ok'' (run [NextEpisode tick] pilot_stage))) = 1
   \<and> highestEpisodeReached (snd (afterResponse tick ''ok'' (run [NextEpisode tick] pilot_stage))) = 1
   \<and> \<not> completed (snd (afterResponse tick ''ok'' (run [NextEpisode tick] pilot_stage)))
   \<and> stateMessage (fst (afterResponse tick ''ok'' (run [NextEpisode tick] pilot_stage)))
       = ''Episode 2/3''"
  using afterResponse_frame_effect [of tick "''ok''" "run [NextEpisode tick] pilot_stage"]
  by (simp add: goToNextEpisode_nav pilot_stage_fields show_int_def)

text \<open>
  C6. On every stage that a sequence of calls has reached from the stage that the
  constructor returns, the turn start returns no system message when \<open>injectContext\<close>
  is false, and otherwise the context sentence with the title of the current episode (or
  \<open>Episode\<close> and the index plus one when the list of titles has no entry there), the
  index plus one and the number of episodes. The constructor returns a stage on every
  accepted input; on the stage of the three greetings, at episode 0, the sentence names
  \<open>Pilot (1/3)\<close>.
\<close>

theorem beforePrompt_context:
  "(accepted d \<longrightarrow> (\<exists>s0. constructor clk d = Inr s0))
   \<and> (\<forall>s0 st. constructor clk d = Inr s0 \<and> st = run cs s0 \<longrightarrow>
        StageResponse.systemMessage (fst (beforePrompt clk1 m st)) =
          (if ConfigType.injectContext (config st)
           then Some (''[Chubflix Episode Context: Currently on ''
                 @ (if 0 \<le> currentEpisode st \<and> currentEpisode st < int (length (episodeTitles st))
                    then episodeTitles st ! nat (currentEpisode st)
                    else ''Episode '' @ show_int (currentEpisode st + 1))
                 @ '' ('' @ show_int (currentEpisode st + 1) @ ''/'' @ show_int (totalEpisodes st)
                 @ ''). Maintain narrative continuity with previous episodes.]'')
           else None))
   \<and> (\<exists>p. constructor clk pilot_data = Inr p
        \<and> StageResponse.systemMessage (fst (beforePrompt clk1 m p)) =
            Some ''[Chubflix Episode Context: Currently on Pilot (1/3). Maintain narrative continuity with previous episodes.]'')"
proof -
  have returns: "accepted d \<longrightarrow> (\<exists>s0. constructor clk d = Inr s0)"
    by (simp add: constructor_accepted)
  have general: "StageResponse.systemMessage (fst (beforePrompt clk1 m st)) =
          (if ConfigType.injectContext (config st)
           then Some (''[Chubflix Episode Context: Currently on ''
                 @ (if 0 \<le> currentEpisode st \<and> currentEpisode st < int (length (episodeTitles st))
                    then episodeTitles st ! nat (currentEpisode st)
                    else ''Episode '' @ show_int (currentEpisode st + 1))
                 @ '' ('' @ show_int (currentEpisode st + 1) @ ''/'' @ show_int (totalEpisodes st)
                 @ ''). Maintain narrative continuity with previous episodes.]'')
           else None)"
    if s0: "constructor clk d = Inr s0" and st: "st = run cs s0" for s0 st
  proof -
    have title: "or_str (js_index (episodeTitles st) (currentEpisode st)) dflt =
        (if 0 \<le> currentEpisode st \<and> currentEpisode st < int (length (episodeTitles st))
         then episodeTitles st ! nat (currentEpisode st) else dflt)" for dflt
    proof (cases "0 \<le> currentEpisode st \<and> currentEpisode st < int (length (episodeTitles st))")
      case True
      then have "nat (currentEpisode st) < length (episodeTitles st)"
        by linarith
      then have "episodeTitles st ! nat (currentEpisode st) \<in> set (episodeTitles st)"
        by (rule nth_mem)
      then have "episodeTitles st ! nat (currentEpisode st) \<noteq> []"
        using st constructor_titles_nonempty [OF s0] by simp
      with True show ?thesis
        by (simp add: js_index_def)
    next
      case False
      then have "js_index (episodeTitles st) (currentEpisode st) = None"
        by (auto simp add: js_index_def)
      with False show ?thesis
        by auto
    qed
    show ?thesis
      by (simp add: beforePrompt_def Let_def title)
  qed
  have pilot: "\<exists>p. constructor clk pilot_data = Inr p
        \<and> StageResponse.systemMessage (fst (beforePrompt clk1 m p)) =
            Some ''[Chubflix Episode Context: Currently on Pilot (1/3). Maintain narrative continuity with previous episodes.]''"
    unfolding pilot_constructed_at
    by (simp add: beforePrompt_def Let_def pilot_stage_def js_index_def show_int_def
          default_config_def)
  from returns general pilot show ?thesis
    by blast
qed

theorem beforePrompt_context_witness:
  "StageResponse.systemMessage (fst (beforePrompt tick ''hi''
       (run [NextEpisode tick, SetState tick (Some (snapshot (Some 7)))] pilot_stage))) =
     Some ''[Chubflix Episode Context: Currently on Episode 8 (8/3). Maintain narrative continuity with previous episodes.]''
   \<and> StageResponse.systemMessage (fst (beforePrompt tick ''hi''
       (run [NextEpisode tick] pilot_stage))) =
     Some ''[Chubflix Episode Context: Currently on Twist (2/3). Maintain narrative continuity with previous episodes.]''"
proof -
  note sentences = beforePrompt_context [of pilot_data tick
      "[NextEpisode tick, SetState tick (Some (snapshot (Some 7)))]" tick "''hi''"]
    beforePrompt_context [of pilot_data tick "[NextEpisode tick]" tick "''hi''"]
  have far: "StageResponse.systemMessage (fst (beforePrompt tick ''hi''
       (run [NextEpisode tick, SetState tick (Some (snapshot (Some 7)))] pilot_stage))) =
     Some ''[Chubflix Episode Context: Currently on Episode 8 (8/3). Maintain narrative continuity with previous episodes.]''"
    using sentences(1) pilot_constructed
    by (simp add: setState_current snapshot_def goToNextEpisode_nav pilot_stage_fields
          show_int_def default_config_def)
  have near: "StageResponse.systemMessage (fst (beforePrompt tick ''hi''
       (run [NextEpisode tick] pilot_stage))) =
     Some ''[Chubflix Episode Context: Currently on Twist (2/3). Maintain narrative continuity with previous episodes.]''"
    using sentences(2) pilot_constructed
    by (simp add: goToNextEpisode_nav pilot_stage_fields show_int_def default_config_def)
  from far near show ?thesis
    by simp
qed

end
